theory Spec2Isabelle
  imports
    Main
    "HOL-Library.Char_ord"
    "HOL-Library.List_Lexorder"
    "HOL-Library.Multiset"
    "HOL-Library.Word"
begin

section \<open>Data model of game/chat.go\<close>

text \<open>
  A \<open>dip.Nation\<close> is a Go string, compared bytewise; \<open>Nations\<close> is a slice of them.
  With \<open>Char_ord\<close> and \<open>List_Lexorder\<close> the order on \<open>string\<close> is the bytewise
  lexicographic order of Go's \<open>n[i] < n[j]\<close> in \<open>Nations.Less\<close>.
\<close>

type_synonym Nation = string
type_synonym Nations = "Nation list"

text \<open>
  A \<open>*datastore.Key\<close>: kind, string id, integer id (int64) and parent key. A nil
  pointer is \<open>None\<close> of \<open>key option\<close>.
\<close>

datatype key = Key (kind: string) (stringID: string) (intID: "64 word") (parent: "key option")

text \<open>A \<open>time.Time\<close> instant, as an integer offset from Go's zero time.\<close>

type_synonym time = int

text \<open>
  A Go \<open>error\<close> value: one built by \<open>fmt.Errorf\<close> or returned by a library
  (\<open>Err\<close>), the sentinel \<open>datastore.ErrNoSuchEntity\<close>, and
  \<open>appengine.MultiError\<close>, a slice of errors whose entries may be nil.
\<close>

datatype error =
    Err string
  | ErrNoSuchEntity
  | MultiError "error option list"

text \<open>
  How a handler ends without content: it writes a response with
  \<open>http.Error(w, msg, code)\<close> and returns nil, it returns an error, or it panics.
\<close>

datatype failure =
    HTTPError nat string
  | Return error
  | Panic string

text \<open>
  The status a handler writes itself. An error it returns is left to the framework;
  the file gives it no status and no class.
\<close>

fun httpStatus :: "failure \<Rightarrow> nat option" where
  "httpStatus (HTTPError code msg) = Some code"
| "httpStatus (Return err) = None"
| "httpStatus (Panic msg) = None"

definition messageKind :: string where
  "messageKind = ''Message''"

definition channelKind :: string where
  "channelKind = ''Channel''"

subsection \<open>Library functions used by the file\<close>

text \<open>
  \<open>strings.Split(s, sep)\<close> for a one-byte separator: cut at the first separator and
  go on behind it; a string without separator is its own single part.
\<close>

function strings_Split :: "string \<Rightarrow> char \<Rightarrow> string list" where
  "strings_Split s sep =
     (case dropWhile (\<lambda>c. c \<noteq> sep) s of
        [] \<Rightarrow> [s]
      | _ # rest \<Rightarrow> takeWhile (\<lambda>c. c \<noteq> sep) s # strings_Split rest sep)"
  by pat_completeness auto
termination
proof (relation "measure (\<lambda>(s, sep). length s)")
  show "wf (measure (\<lambda>(s, sep). length s))" by simp
next
  fix s :: string and sep :: char and x21 :: char and x22 :: string
  assume "dropWhile (\<lambda>c. c \<noteq> sep) s = x21 # x22"
  then have "length (x21 # x22) \<le> length s"
    by (metis length_dropWhile_le)
  then show "((x22, sep), (s, sep)) \<in> measure (\<lambda>(s, sep). length s)"
    by simp
qed

declare strings_Split.simps [simp del]

text \<open>\<open>strings.Join(elems, sep)\<close>.\<close>

fun strings_Join :: "string list \<Rightarrow> string \<Rightarrow> string" where
  "strings_Join [] sep = []"
| "strings_Join [a] sep = a"
| "strings_Join (a # b # rest) sep = a @ sep @ strings_Join (b # rest) sep"

text \<open>\<open>fmt.Sprintf("%d", i)\<close> for an int64.\<close>

fun decimal :: "nat \<Rightarrow> string" where
  "decimal n =
     (if n < 10 then [''0123456789'' ! n]
      else decimal (n div 10) @ [''0123456789'' ! (n mod 10)])"

declare decimal.simps [simp del]

definition fmt_d :: "64 word \<Rightarrow> string" where
  "fmt_d w = (if sint w < 0 then CHR ''-'' # decimal (nat (- sint w)) else decimal (nat (sint w)))"

subsection \<open>Nations\<close>

text \<open>\<open>Nations.FromString\<close>: one nation per part of the comma split.\<close>

definition FromString :: "string \<Rightarrow> Nations" where
  "FromString s = (let parts = strings_Split s CHR '','' in map (\<lambda>p. p) parts)"

text \<open>\<open>Nations.Includes\<close>: the linear search of the source.\<close>

primrec Includes :: "Nations \<Rightarrow> Nation \<Rightarrow> bool" where
  "Includes [] m = False"
| "Includes (x # xs) m = (if x = m then True else Includes xs m)"

text \<open>\<open>Nations.String\<close>: the comma join.\<close>

definition String :: "Nations \<Rightarrow> string" where
  "String n = strings_Join (map (\<lambda>x. x) n) '',''"

text \<open>
  \<open>sort.Sort\<close> on \<open>Nations\<close> orders by \<open>Less\<close>, that is by \<open><\<close> on strings. Elements
  that are not less than each other are equal strings, so the outcome is the one
  ascending arrangement of the slice.
\<close>

definition sort_Sort :: "Nations \<Rightarrow> Nations" where
  "sort_Sort n = sort n"

subsection \<open>Channel keys\<close>

text \<open>
  \<open>ChannelID\<close>: the two guards of the source, then
  \<open>datastore.NewKey(ctx, channelKind, "<int id>:<members>", 0, nil)\<close>.
\<close>

definition ChannelID :: "key option \<Rightarrow> Nations \<Rightarrow> error + key" where
  "ChannelID gameID members =
     (case gameID of
        None \<Rightarrow> Inl (Err ''channels must have games and > 1 members'')
      | Some g \<Rightarrow>
          if length members < 2 then Inl (Err ''channels must have games and > 1 members'')
          else if intID g = 0 then Inl (Err ''gameIDs must have int IDs'')
          else Inr (Key channelKind (fmt_d (intID g) @ '':'' @ String members) 0 None))"

section \<open>Records, the datastore and the request\<close>

text \<open>
  \<open>NMessagesSince\<close>, \<open>Channel\<close> and \<open>Message\<close> as the source declares them. The
  zero value of a struct is the record of the zero values of its fields. The
  counters are Go \<open>int\<close>s of 64 bits; they count stored messages and stay far from
  the bound, so the model has them as integers.
\<close>

record NMessagesSince =
  Since :: time
  NMessages :: int

record Channel =
  GameID :: "key option"
  Members :: Nations
  NMessages :: int
  NMessagesSince :: NMessagesSince

record Message =
  ID :: "key option"
  GameID :: "key option"
  ChannelMembers :: Nations
  Sender :: Nation
  Body :: string
  CreatedAt :: time

definition zeroNMessagesSince :: NMessagesSince where
  "zeroNMessagesSince = \<lparr>Since = 0, NMessagesSince.NMessages = 0\<rparr>"

definition zeroChannel :: Channel where
  "zeroChannel =
     \<lparr>Channel.GameID = None, Members = [], Channel.NMessages = 0,
      NMessagesSince = zeroNMessagesSince\<rparr>"

text \<open>
  Of \<open>Game\<close> and \<open>Member\<close>, declared elsewhere in the package, the file reads one
  field each.
\<close>

record Game =
  Variant :: string

record Member =
  Nation :: Nation

text \<open>
  The datastore holds the entities of the two kinds by key, in the store's order.
  \<open>NMessagesSince\<close> and \<open>ID\<close> carry the tag \<open>datastore:"-"\<close>: they are not
  stored, and an entity that is loaded has their zero value. The datastore keeps a
  time to the microsecond; the model takes the instants of \<open>Now\<close> to be whole
  microseconds, so that a stored \<open>CreatedAt\<close> is the one that was put.
\<close>

record Store =
  channels :: "(key \<times> Channel) list"
  messages :: "(key \<times> Message) list"

text \<open>
  What a handler gets from outside the file, for one request: the request's values
  and variables, the outcomes of the calls into other packages, the variant
  registry, and what the datastore answers where it can fail or choose.
  \<^item> \<open>user\<close>: the id of \<open>r.Values()["user"].(*auth.User)\<close>, \<open>None\<close> when the type
    assertion fails;
  \<^item> \<open>DecodeKey\<close>: \<open>datastore.DecodeKey(r.Vars()["game_id"])\<close>;
  \<^item> \<open>MemberID\<close>: \<open>MemberID(ctx, gameID, user.Id)\<close>;
  \<^item> \<open>GetMulti_err\<close>, \<open>game\<close>, \<open>member\<close>: the error of \<open>datastore.GetMulti\<close> and the
    two structs as the call leaves them;
  \<^item> \<open>Copy\<close>: the fields \<open>ChannelMembers\<close> and \<open>Body\<close> that \<open>Copy(message, r, "POST")\<close>
    fills in, or its error;
  \<^item> \<open>Now\<close>: \<open>time.Now()\<close>;
  \<^item> \<open>Variants\<close>: \<open>variants.Variants[v].Nations\<close>, empty for a variant that is not
    registered;
  \<^item> \<open>Get_fault\<close>: an error of \<open>datastore.Get\<close> other than the entity's absence,
    of a call that loads nothing (\<open>ErrFieldMismatch\<close>, which reports a struct that
    was loaded in part, is not among the faults of the model);
  \<^item> \<open>Put_message\<close>: the integer id the datastore gives the new message, or the
    error of that \<open>Put\<close>; \<open>Put_channel\<close>: the error of the channel's \<open>Put\<close>;
    \<open>Commit\<close>: the error of the transaction's commit;
  \<^item> \<open>channel_members\<close>: \<open>r.Vars()["channel_members"]\<close>;
  \<^item> \<open>since_param\<close>: the query parameter \<open>since\<close>; \<open>Parse\<close>: \<open>time.Parse\<close> on it;
  \<^item> \<open>GetAll_fault\<close>: the error of a query's \<open>GetAll\<close>;
  \<^item> \<open>Count_fault\<close>: the error of the count query under a channel key;
  \<^item> \<open>arrival\<close>: the order in which the counting goroutines, numbered by channel
    index, deliver their results.
\<close>

record Env =
  user :: "string option"
  DecodeKey :: "error + key"
  MemberID :: "error + key"
  GetMulti_err :: "error option"
  game :: Game
  member :: Member
  Copy :: "error + Nations \<times> string"
  Now :: time
  Variants :: "string \<Rightarrow> Nations"
  Get_fault :: "error option"
  Put_message :: "error + 64 word"
  Put_channel :: "error option"
  Commit :: "error option"
  channel_members :: string
  since_param :: string
  Parse :: "error + time"
  GetAll_fault :: "error option"
  Count_fault :: "key \<Rightarrow> error option"
  arrival :: "nat list"

text \<open>\<open>datastore.Get\<close> of a channel.\<close>

definition datastore_Get :: "Env \<Rightarrow> Store \<Rightarrow> key \<Rightarrow> error + Channel" where
  "datastore_Get env st k =
     (case Get_fault env of
        Some e \<Rightarrow> Inl e
      | None \<Rightarrow>
          (case map_of (channels st) k of
             None \<Rightarrow> Inl ErrNoSuchEntity
           | Some c \<Rightarrow> Inr c))"

text \<open>\<open>datastore.Put\<close> under a complete key: the entity of that key is replaced or added.\<close>

fun put_entity :: "key \<Rightarrow> 'a \<Rightarrow> (key \<times> 'a) list \<Rightarrow> (key \<times> 'a) list" where
  "put_entity k v [] = [(k, v)]"
| "put_entity k v ((k', v') # es) =
     (if k' = k then (k, v) # es else (k', v') # put_entity k v es)"

subsection \<open>createMessage\<close>

text \<open>The loop over the destination members: is one of them not in the roster?\<close>

primrec unknownMember :: "Nations \<Rightarrow> Nations \<Rightarrow> bool" where
  "unknownMember roster [] = False"
| "unknownMember roster (channelMember # rest) =
     (if \<not> Includes roster channelMember then True else unknownMember roster rest)"

text \<open>
  The function passed to \<open>datastore.RunInTransaction\<close>, with the commit: the result
  and the store after it. The datastore runs the function in isolation and applies
  its writes as one unit; after a conflict it runs the function again, so the model
  is the one run that is committed or given up, on the store of that moment. An
  error leaves the store as it was. The error of \<open>Get\<close> is compared with
  \<open>ErrNoSuchEntity\<close> only; with any other outcome the function goes on with
  \<open>channel\<close> as \<open>Get\<close> left it, which after an error is the zero value. A \<open>Put\<close>
  under an incomplete key adds an entity under a key the datastore completes.
\<close>

definition createMessage_tx ::
  "Env \<Rightarrow> Store \<Rightarrow> key \<Rightarrow> key \<Rightarrow> Message \<Rightarrow> (failure + Message) \<times> Store" where
  "createMessage_tx env st gameID channelID message =
     (let channel =
        (case datastore_Get env st channelID of
           Inr c \<Rightarrow> c
         | Inl err \<Rightarrow>
             if err = ErrNoSuchEntity
             then zeroChannel\<lparr>Channel.GameID := Some gameID,
                    Members := ChannelMembers message, Channel.NMessages := 0\<rparr>
             else zeroChannel)
      in case Put_message env of
           Inl err \<Rightarrow> (Inl (Return err), st)
         | Inr newID \<Rightarrow>
             let messageID = Key messageKind [] newID (Some channelID);
                 message = message\<lparr>ID := Some messageID\<rparr>;
                 st1 = st\<lparr>messages := messages st @ [(messageID, message\<lparr>ID := None\<rparr>)]\<rparr>;
                 channel = channel\<lparr>Channel.NMessages := Channel.NMessages channel + 1\<rparr>
             in case Put_channel env of
                  Some err \<Rightarrow> (Inl (Return err), st)
                | None \<Rightarrow>
                    let st2 = st1\<lparr>channels := put_entity channelID
                                 (channel\<lparr>NMessagesSince := zeroNMessagesSince\<rparr>) (channels st1)\<rparr>
                    in case Commit env of
                         Some err \<Rightarrow> (Inl (Return err), st)
                       | None \<Rightarrow> (Inr message, st2))"

definition createMessage :: "Env \<Rightarrow> Store \<Rightarrow> (failure + Message) \<times> Store" where
  "createMessage env st =
     (case user env of
        None \<Rightarrow> (Inl (HTTPError 401 ''unauthorized''), st)
      | Some u \<Rightarrow>
     (case DecodeKey env of
        Inl err \<Rightarrow> (Inl (Return err), st)
      | Inr gameID \<Rightarrow>
     (case MemberID env of
        Inl err \<Rightarrow> (Inl (Return err), st)
      | Inr memberID \<Rightarrow>
     (case GetMulti_err env of
        Some err \<Rightarrow> (Inl (Return err), st)
      | None \<Rightarrow>
     (case Copy env of
        Inl err \<Rightarrow> (Inl (Return err), st)
      | Inr (members, body) \<Rightarrow>
          let message =
            \<lparr>ID = None, Message.GameID = Some gameID,
             ChannelMembers = sort_Sort members, Sender = Nation (member env),
             Body = body, CreatedAt = Now env\<rparr>
          in
          if \<not> Includes (ChannelMembers message) (Nation (member env))
          then (Inl (HTTPError 403 ''can only send messages to member channels''), st)
          else if unknownMember (Variants env (Variant (game env))) (ChannelMembers message)
          then (Inl (HTTPError 400 ''unknown channel member''), st)
          else
            (case ChannelID (Some gameID) (ChannelMembers message) of
               Inl err \<Rightarrow> (Inl (Return err), st)
             | Inr channelID \<Rightarrow> createMessage_tx env st gameID channelID message))))))"

subsection \<open>The public channel and the requester's nation\<close>

definition publicChannel :: "Env \<Rightarrow> string \<Rightarrow> Nations" where
  "publicChannel env variant = sort_Sort (Variants env variant)"

text \<open>
  The comparison loop of \<open>isPublic\<close>, entered with slices of equal length:
  \<open>members[i] != public[i]\<close> for \<open>i\<close> over \<open>public\<close>.
\<close>

fun sameNations :: "Nations \<Rightarrow> Nations \<Rightarrow> bool" where
  "sameNations [] members = True"
| "sameNations (p # public) [] = False"
| "sameNations (p # public) (m # members) =
     (if m \<noteq> p then False else sameNations public members)"

text \<open>
  \<open>isPublic\<close> sorts \<open>members\<close> in place: the slice it is given shares its array
  with the caller's, so the caller's slice is sorted after the call. The model
  returns the answer and the slice as the call leaves it.
\<close>

definition isPublic :: "Env \<Rightarrow> string \<Rightarrow> Nations \<Rightarrow> bool \<times> Nations" where
  "isPublic env variant members =
     (let public = publicChannel env variant;
          members = sort_Sort members
      in (if length members \<noteq> length public then False else sameNations public members,
          members))"

text \<open>
  The lines both listing handlers share: the requester's nation after
  \<open>datastore.GetMulti\<close>. With no error it is the member's nation; with a
  \<open>MultiError\<close> whose first entry (the game's) is nil it stays the empty string,
  the observer.
\<close>

definition requesterNation :: "Env \<Rightarrow> failure + Nation" where
  "requesterNation env =
     (case GetMulti_err env of
        None \<Rightarrow> Inr (Nation (member env))
      | Some (MultiError merr) \<Rightarrow>
          (case merr of
             [] \<Rightarrow> Inl (Panic ''index out of range'')
           | Some e # _ \<Rightarrow> Inl (Return e)
           | None # _ \<Rightarrow> Inr [])
      | Some err \<Rightarrow> Inl (Return err))"

text \<open>The \<open>since\<close> parameter of both listing handlers.\<close>

definition sinceOf :: "Env \<Rightarrow> failure + time option" where
  "sinceOf env =
     (if since_param env \<noteq> []
      then (case Parse env of Inl err \<Rightarrow> Inl (Return err) | Inr sinceTime \<Rightarrow> Inr (Some sinceTime))
      else Inr None)"

subsection \<open>listMessages\<close>

text \<open>
  \<open>Query.Ancestor(k)\<close> keeps the entities whose key is \<open>k\<close> or has \<open>k\<close> among its
  ancestors.
\<close>

fun has_ancestor :: "key \<Rightarrow> key \<Rightarrow> bool" where
  "has_ancestor a (Key k s i p) =
     (Key k s i p = a \<or> (case p of None \<Rightarrow> False | Some q \<Rightarrow> has_ancestor a q))"

text \<open>
  The query of \<open>listMessages\<close>: the messages under the channel key, after the
  cutoff when there is one, by descending \<open>CreatedAt\<close> (messages of one instant
  stay in the store's order); \<open>GetAll\<close> loads them.
\<close>

definition queryMessages :: "Store \<Rightarrow> key \<Rightarrow> time option \<Rightarrow> Message list" where
  "queryMessages st channelID since =
     (let q = filter (\<lambda>(k, m). has_ancestor channelID k) (messages st);
          q = (case since of
                 None \<Rightarrow> q
               | Some t \<Rightarrow> filter (\<lambda>(k, m). t < CreatedAt m) q)
      in map snd (sort_key (\<lambda>(k, m). - CreatedAt m) q))"

text \<open>
  \<open>listMessages\<close>. Its last step, \<open>w.SetContent(messages.Item(r, gameID,
  channelMembers))\<close>, names every message by its sender and encodes \<open>gameID\<close>, which
  is not nil here; it changes no message and cannot fail, so the content is the
  list the query loaded.
\<close>

definition listMessages :: "Env \<Rightarrow> Store \<Rightarrow> failure + Message list" where
  "listMessages env st =
     (case user env of
        None \<Rightarrow> Inl (HTTPError 401 ''unauthorized'')
      | Some u \<Rightarrow>
     (case DecodeKey env of
        Inl err \<Rightarrow> Inl (Return err)
      | Inr gameID \<Rightarrow>
     (let channelMembers = FromString (channel_members env) in
      case sinceOf env of
        Inl f \<Rightarrow> Inl f
      | Inr since \<Rightarrow>
     (case MemberID env of
        Inl err \<Rightarrow> Inl (Return err)
      | Inr memberID \<Rightarrow>
     (case requesterNation env of
        Inl f \<Rightarrow> Inl f
      | Inr nation \<Rightarrow>
          let (allowed, channelMembers) =
            (if Includes channelMembers nation then (True, channelMembers)
             else isPublic env (Variant (game env)) channelMembers)
          in
          if \<not> allowed then Inl (HTTPError 403 ''can only list member channels'')
          else
            (case ChannelID (Some gameID) channelMembers of
               Inl err \<Rightarrow> Inl (Return err)
             | Inr channelID \<Rightarrow>
                 (case GetAll_fault env of
                    Some err \<Rightarrow> Inl (Return err)
                  | None \<Rightarrow> Inr (queryMessages st channelID since))))))))"

subsection \<open>listChannels\<close>

text \<open>
  \<open>Channel.CountSince\<close>: the channel with \<open>NMessagesSince\<close> set, or the error; on
  an error the channel is left as it was.
\<close>

definition CountSince :: "Env \<Rightarrow> Store \<Rightarrow> time \<Rightarrow> Channel \<Rightarrow> error + Channel" where
  "CountSince env st since c =
     (case ChannelID (Channel.GameID c) (Members c) of
        Inl err \<Rightarrow> Inl err
      | Inr channelID \<Rightarrow>
          (case Count_fault env channelID of
             Some err \<Rightarrow> Inl err
           | None \<Rightarrow>
               let count = int (length (filter
                     (\<lambda>(k, m). has_ancestor channelID k \<and> since < CreatedAt m) (messages st)))
               in Inr (c\<lparr>NMessagesSince :=
                        \<lparr>Since = since, NMessagesSince.NMessages = count\<rparr>\<rparr>)))"

text \<open>
  The channels the requester sees: for the observer the entity under the public
  channel's key, if there is one; for a nation the channels of the game that have
  it as a member.
\<close>

definition lookupChannels :: "Env \<Rightarrow> Store \<Rightarrow> key \<Rightarrow> Nation \<Rightarrow> failure + Channel list" where
  "lookupChannels env st gameID nation =
     (if nation = []
      then
        (case ChannelID (Some gameID) (publicChannel env (Variant (game env))) of
           Inl err \<Rightarrow> Inl (Return err)
         | Inr channelID \<Rightarrow>
             (case datastore_Get env st channelID of
                Inr channel \<Rightarrow> Inr [channel]
              | Inl err \<Rightarrow> if err \<noteq> ErrNoSuchEntity then Inl (Return err) else Inr []))
      else
        (case GetAll_fault env of
           Some err \<Rightarrow> Inl (Return err)
         | None \<Rightarrow>
             Inr (map snd (filter
                   (\<lambda>(k, c). Channel.GameID c = Some gameID \<and> nation \<in> set (Members c))
                   (channels st)))))"

text \<open>
  The fan-out. Goroutine \<open>i\<close> sends the error of \<open>channels[i].CountSince\<close> (nil on
  success) on \<open>results\<close>; the handler receives one value per channel, in the order
  of arrival, and appends the errors that are not nil to \<open>merr\<close>.
\<close>

definition received :: "Env \<Rightarrow> error option list \<Rightarrow> error option list" where
  "received env sent = map (\<lambda>i. sent ! i) (filter (\<lambda>i. i < length sent) (arrival env))"

primrec collect :: "error option list \<Rightarrow> error option list \<Rightarrow> error option list" where
  "collect merr [] = merr"
| "collect merr (r # rs) =
     (case r of
        Some err \<Rightarrow> collect (merr @ [Some err]) rs
      | None \<Rightarrow> collect merr rs)"

definition countAll :: "Env \<Rightarrow> Store \<Rightarrow> time \<Rightarrow> Channel list \<Rightarrow> failure + Channel list" where
  "countAll env st since cs =
     (let outcomes = map (CountSince env st since) cs;
          sent = map (\<lambda>r. case r of Inl err \<Rightarrow> Some err | Inr c \<Rightarrow> None) outcomes;
          merr = collect [] (received env sent)
      in if length merr > 0 then Inl (Return (MultiError merr))
         else Inr (map (\<lambda>(c, r). case r of Inl err \<Rightarrow> c | Inr c' \<Rightarrow> c') (zip cs outcomes)))"

text \<open>
  The handler's last step, \<open>w.SetContent(channels.Item(r, gameID))\<close>. \<open>Channels.Item\<close>
  calls \<open>Channel.Item\<close> on every channel in turn, which sorts the channel's members
  in place and builds the link to its messages from \<open>c.GameID.Encode()\<close>; on a nil
  \<open>GameID\<close> that call dereferences nil and the handler panics. The content is the
  channels as \<open>Item\<close> leaves them.
\<close>

definition Channel_Item :: "Channel \<Rightarrow> failure + Channel" where
  "Channel_Item c =
     (let c = c\<lparr>Members := sort_Sort (Members c)\<rparr>
      in case Channel.GameID c of
           None \<Rightarrow> Inl (Panic ''nil pointer dereference'')
         | Some g \<Rightarrow> Inr c)"

primrec Channels_Item :: "Channel list \<Rightarrow> failure + Channel list" where
  "Channels_Item [] = Inr []"
| "Channels_Item (c # cs) =
     (case Channel_Item c of
        Inl f \<Rightarrow> Inl f
      | Inr c' \<Rightarrow>
          (case Channels_Item cs of
             Inl f \<Rightarrow> Inl f
           | Inr cs' \<Rightarrow> Inr (c' # cs')))"

definition listChannels :: "Env \<Rightarrow> Store \<Rightarrow> failure + Channel list" where
  "listChannels env st =
     (case user env of
        None \<Rightarrow> Inl (HTTPError 401 ''unauthorized'')
      | Some u \<Rightarrow>
     (case DecodeKey env of
        Inl err \<Rightarrow> Inl (Return err)
      | Inr gameID \<Rightarrow>
     (case MemberID env of
        Inl err \<Rightarrow> Inl (Return err)
      | Inr memberID \<Rightarrow>
     (case sinceOf env of
        Inl f \<Rightarrow> Inl f
      | Inr since \<Rightarrow>
     (case requesterNation env of
        Inl f \<Rightarrow> Inl f
      | Inr nation \<Rightarrow>
     (case lookupChannels env st gameID nation of
        Inl f \<Rightarrow> Inl f
      | Inr cs \<Rightarrow>
          (case since of
             Some t \<Rightarrow>
               (case countAll env st t cs of
                  Inl f \<Rightarrow> Inl f
                | Inr cs' \<Rightarrow> Channels_Item cs')
           | None \<Rightarrow>
               Channels_Item (map (\<lambda>c. c\<lparr>NMessagesSince :=
                   (NMessagesSince c)\<lparr>NMessagesSince.NMessages := Channel.NMessages c\<rparr>\<rparr>) cs))))))))"

subsection \<open>Stores built by the write path\<close>

text \<open>
  \<open>createMessage\<close> is the only writer of messages, and it stores each one under a
  key whose parent is a channel key, which has no parent.
\<close>

definition message_keys_wf :: "Store \<Rightarrow> bool" where
  "message_keys_wf st =
     list_all (\<lambda>(k, m). case parent k of None \<Rightarrow> False | Some p \<Rightarrow> parent p = None)
       (messages st)"

subsection \<open>A game of three nations, for the examples\<close>

definition trioVariants :: "string \<Rightarrow> Nations" where
  "trioVariants v = (if v = ''Trio'' then [''ENGLAND'', ''FRANCE'', ''GERMANY''] else [])"

definition game7 :: key where
  "game7 = Key ''Game'' [] 7 None"

text \<open>ENGLAND, a member of game 7, sends ``hello'' to FRANCE and ENGLAND.\<close>

definition env0 :: Env where
  "env0 =
     \<lparr>user = Some ''u1'', DecodeKey = Inr game7,
      MemberID = Inr (Key ''Member'' ''u1'' 0 (Some game7)),
      GetMulti_err = None, game = \<lparr>Variant = ''Trio''\<rparr>, member = \<lparr>Nation = ''ENGLAND''\<rparr>,
      Copy = Inr ([''FRANCE'', ''ENGLAND''], ''hello''), Now = 100,
      Variants = trioVariants, Get_fault = None, Put_message = Inr 1,
      Put_channel = None, Commit = None, channel_members = ''ENGLAND,FRANCE'',
      since_param = [], Parse = Inl (Err ''empty''), GetAll_fault = None,
      Count_fault = (\<lambda>k. None), arrival = []\<rparr>"

definition emptyStore :: Store where
  "emptyStore = \<lparr>channels = [], messages = []\<rparr>"

definition channelEF :: key where
  "channelEF = Key ''Channel'' ''7:ENGLAND,FRANCE'' 0 None"

definition message_at :: "time \<Rightarrow> Message" where
  "message_at t =
     \<lparr>ID = None, Message.GameID = Some game7, ChannelMembers = [''ENGLAND'', ''FRANCE''],
      Sender = ''ENGLAND'', Body = ''hello'', CreatedAt = t\<rparr>"

text \<open>The store after two messages on the channel of ENGLAND and FRANCE.\<close>

definition store2 :: Store where
  "store2 =
     \<lparr>channels =
        [(channelEF,
          \<lparr>Channel.GameID = Some game7, Members = [''ENGLAND'', ''FRANCE''],
           Channel.NMessages = 2, NMessagesSince = zeroNMessagesSince\<rparr>)],
      messages =
        [(Key ''Message'' [] 1 (Some channelEF), message_at 100),
         (Key ''Message'' [] 2 (Some channelEF), message_at 200)]\<rparr>"

definition channelEFG :: key where
  "channelEFG = Key ''Channel'' ''7:ENGLAND,FRANCE,GERMANY'' 0 None"

definition public_message :: Message where
  "public_message =
     \<lparr>ID = None, Message.GameID = Some game7,
      ChannelMembers = [''ENGLAND'', ''FRANCE'', ''GERMANY''],
      Sender = ''GERMANY'', Body = ''hi all'', CreatedAt = 150\<rparr>"

definition publicEFG :: Channel where
  "publicEFG =
     \<lparr>Channel.GameID = Some game7, Members = [''ENGLAND'', ''FRANCE'', ''GERMANY''],
      Channel.NMessages = 1, NMessagesSince = zeroNMessagesSince\<rparr>"

definition privateEF :: Channel where
  "privateEF =
     \<lparr>Channel.GameID = Some game7, Members = [''ENGLAND'', ''FRANCE''],
      Channel.NMessages = 2, NMessagesSince = zeroNMessagesSince\<rparr>"

text \<open>The same store after GERMANY has written to the public channel.\<close>

definition store3 :: Store where
  "store3 =
     \<lparr>channels = [(channelEF, privateEF), (channelEFG, publicEFG)],
      messages =
        [(Key ''Message'' [] 1 (Some channelEF), message_at 100),
         (Key ''Message'' [] 2 (Some channelEF), message_at 200),
         (Key ''Message'' [] 3 (Some channelEFG), public_message)]\<rparr>"

text \<open>An observer of game 7: the game is found, the member is not.\<close>

definition observer :: Env where
  "observer = env0\<lparr>GetMulti_err := Some (MultiError [None, Some ErrNoSuchEntity])\<rparr>"

text \<open>
  ENGLAND lists the channels with a cutoff; both count queries fail, and the
  result for the second channel arrives first.
\<close>

definition failingCounts :: Env where
  "failingCounts =
     env0\<lparr>since_param := ''0001-01-01T00:01:40Z'', Parse := Inr 100,
       Count_fault :=
         (\<lambda>k. if k = channelEF then Some (Err ''count: timeout'')
              else if k = channelEFG then Some (Err ''count: unavailable'')
              else None),
       arrival := [1, 0]\<rparr>"

section \<open>Properties of the participant set and of channel keys\<close>

lemma Includes_set: "Includes n m \<longleftrightarrow> m \<in> set n"
  by (induction n) auto

lemma sort_Sort_mset: "mset a = mset b \<Longrightarrow> sort_Sort a = sort_Sort b"
  unfolding sort_Sort_def
  by (rule properties_for_sort) simp_all

lemma strings_Split_no_sep:
  "sep \<notin> set s \<Longrightarrow> strings_Split s sep = [s]"
proof -
  assume "sep \<notin> set s"
  then have d: "dropWhile (\<lambda>c. c \<noteq> sep) s = []"
    by auto
  show ?thesis
    by (subst strings_Split.simps) (simp only: d list.case)
qed

lemma strings_Split_append:
  assumes "sep \<notin> set a"
  shows "strings_Split (a @ sep # r) sep = a # strings_Split r sep"
proof -
  from assms have d: "dropWhile (\<lambda>c. c \<noteq> sep) (a @ sep # r) = sep # r"
    by (auto simp: dropWhile_append)
  from assms have t: "takeWhile (\<lambda>c. c \<noteq> sep) (a @ sep # r) = a"
    by (auto simp: takeWhile_append)
  show ?thesis
    by (subst strings_Split.simps) (simp only: d t list.case)
qed

lemma strings_Split_not_Nil: "strings_Split s sep \<noteq> []"
  by (simp add: strings_Split.simps [of s sep] split: list.split)

lemma Split_Join:
  "ns \<noteq> [] \<Longrightarrow> \<forall>n\<in>set ns. sep \<notin> set n \<Longrightarrow>
     strings_Split (strings_Join ns [sep]) sep = ns"
proof (induction ns "[sep]" rule: strings_Join.induct)
  case 1
  then show ?case by simp
next
  case (2 a)
  then show ?case by (simp add: strings_Split_no_sep)
next
  case (3 a b rest)
  then show ?case by (simp add: strings_Split_append)
qed

text \<open>
  C1, as the claim states it, fails: the two orderings of ENGLAND and FRANCE are
  permutations of each other and \<open>ChannelID\<close> gives them different keys.
\<close>

theorem ChannelID_order_sensitive:
  "mset [''FRANCE'', ''ENGLAND''] = mset [''ENGLAND'', ''FRANCE''] \<and>
   ChannelID (Some (Key ''Game'' [] 7 None)) [''FRANCE'', ''ENGLAND''] \<noteq>
   ChannelID (Some (Key ''Game'' [] 7 None)) [''ENGLAND'', ''FRANCE'']"
  by (simp add: ChannelID_def String_def)

text \<open>
  C10. For a non-empty sequence of nations without commas, \<open>FromString\<close> of the
  \<open>String\<close> form gives the sequence back; \<open>FromString\<close> never gives an empty
  sequence, and the empty string gives one empty nation.
\<close>

theorem FromString_String_roundtrip:
  "(ns \<noteq> [] \<and> (\<forall>n\<in>set ns. CHR '','' \<notin> set n) \<longrightarrow> FromString (String ns) = ns) \<and>
   FromString s \<noteq> [] \<and>
   FromString [] = [[]]"
proof -
  have "FromString (String ns) = ns" if "ns \<noteq> []" "\<forall>n\<in>set ns. CHR '','' \<notin> set n"
    using Split_Join [OF that] by (simp add: FromString_def String_def)
  moreover have "FromString s \<noteq> []"
    by (simp add: FromString_def strings_Split_not_Nil)
  moreover have "FromString [] = [[]]"
    by (simp add: FromString_def strings_Split.simps [of "[]"])
  ultimately show ?thesis by blast
qed

theorem FromString_String_roundtrip_witness:
  "[''ENGLAND'', ''FRANCE''] \<noteq> [] \<and>
   CHR '','' \<notin> set ''ENGLAND'' \<and> CHR '','' \<notin> set ''FRANCE'' \<and>
   String [''ENGLAND'', ''FRANCE''] = ''ENGLAND,FRANCE'' \<and>
   FromString (String [''ENGLAND'', ''FRANCE'']) = [''ENGLAND'', ''FRANCE''] \<and>
   FromString ''ENGLAND,FRANCE'' \<noteq> []"
proof -
  have h: "[''ENGLAND'', ''FRANCE''] \<noteq> [] \<and>
      (\<forall>n\<in>set [''ENGLAND'', ''FRANCE'']. CHR '','' \<notin> set n)"
    by simp
  have s: "String [''ENGLAND'', ''FRANCE''] = ''ENGLAND,FRANCE''"
    by (simp add: String_def)
  from FromString_String_roundtrip [of "[''ENGLAND'', ''FRANCE'']" "''ENGLAND,FRANCE''"] h
  have "FromString (String [''ENGLAND'', ''FRANCE'']) = [''ENGLAND'', ''FRANCE''] \<and>
      FromString ''ENGLAND,FRANCE'' \<noteq> []"
    by blast
  with s show ?thesis by simp
qed

section \<open>The write path\<close>

lemma unknownMember_set: "unknownMember roster ms \<longleftrightarrow> \<not> set ms \<subseteq> set roster"
  by (induction ms) (auto simp: Includes_set)

lemma set_sort_Sort: "set (sort_Sort n) = set n"
  by (simp add: sort_Sort_def)

lemma fmt_d_7: "fmt_d 7 = ''7''"
  by (simp add: fmt_d_def decimal.simps)

lemma ChannelID_game7_EF:
  "ChannelID (Some game7) [''ENGLAND'', ''FRANCE''] = Inr channelEF"
  by (simp add: ChannelID_def game7_def channelEF_def channelKind_def fmt_d_7 String_def)

lemma sort_FE: "sort_Sort [''FRANCE'', ''ENGLAND''] = [''ENGLAND'', ''FRANCE'']"
  by (simp add: sort_Sort_def)

lemma createMessage_tx_Inr:
  assumes "createMessage_tx env st gameID channelID message = (Inr message', st')"
  shows "\<exists>newID. message' = message\<lparr>ID := Some (Key messageKind [] newID (Some channelID))\<rparr> \<and>
           messages st' = messages st @ [(Key messageKind [] newID (Some channelID), message\<lparr>ID := None\<rparr>)]"
  using assms
  by (auto simp: createMessage_tx_def Let_def split: sum.splits option.splits)

lemma createMessage_Inr:
  assumes "createMessage env st = (Inr message, st')"
  shows "\<exists>gameID members body channelID newID.
           DecodeKey env = Inr gameID \<and> Copy env = Inr (members, body) \<and>
           Nation (member env) \<in> set members \<and>
           set members \<subseteq> set (Variants env (Variant (game env))) \<and>
           ChannelID (Some gameID) (sort_Sort members) = Inr channelID \<and>
           message = \<lparr>ID = Some (Key messageKind [] newID (Some channelID)),
             Message.GameID = Some gameID,
             ChannelMembers = sort_Sort members, Sender = Nation (member env),
             Body = body, CreatedAt = Now env\<rparr> \<and>
           messages st' = messages st @
             [(Key messageKind [] newID (Some channelID), message\<lparr>ID := None\<rparr>)]"
  using assms
  apply (simp add: createMessage_def Let_def Includes_set unknownMember_set set_sort_Sort
      split: option.splits sum.splits prod.splits if_splits)
  apply (drule createMessage_tx_Inr)
  apply auto
  done

text \<open>
  C6, as the code has it. For a call that has passed authentication, the lookups
  and the decoding of the request: a sender that is not among the destination
  members gets 403 (Forbidden) and the store is as before; a sender that is among
  them, with a destination member that is not in the roster of the game's variant,
  gets 400 (InvalidArgument) and the store is as before; and a call that succeeds
  has stored one message whose sender is among its channel members, all of them in
  the roster.
\<close>

theorem createMessage_validation:
  assumes "user env = Some u" and "DecodeKey env = Inr gameID"
    and "MemberID env = Inr memberID" and "GetMulti_err env = None"
    and "Copy env = Inr (members, body)"
  shows
    "(Nation (member env) \<notin> set members \<longrightarrow>
        createMessage env st =
          (Inl (HTTPError 403 ''can only send messages to member channels''), st)) \<and>
     (Nation (member env) \<in> set members \<and>
      \<not> set members \<subseteq> set (Variants env (Variant (game env))) \<longrightarrow>
        createMessage env st = (Inl (HTTPError 400 ''unknown channel member''), st)) \<and>
     (\<forall>message st'. createMessage env st = (Inr message, st') \<longrightarrow>
        Sender message \<in> set (ChannelMembers message) \<and>
        set (ChannelMembers message) \<subseteq> set (Variants env (Variant (game env))) \<and>
        (\<exists>k. ID message = Some k \<and>
           messages st' = messages st @ [(k, message\<lparr>ID := None\<rparr>)]))"
proof (intro conjI impI allI)
  assume "Nation (member env) \<notin> set members"
  with assms show "createMessage env st =
      (Inl (HTTPError 403 ''can only send messages to member channels''), st)"
    by (simp add: createMessage_def Includes_set set_sort_Sort)
next
  assume "Nation (member env) \<in> set members \<and>
      \<not> set members \<subseteq> set (Variants env (Variant (game env)))"
  with assms show "createMessage env st = (Inl (HTTPError 400 ''unknown channel member''), st)"
    by (simp add: createMessage_def Includes_set set_sort_Sort unknownMember_set)
next
  fix message st'
  assume ok: "createMessage env st = (Inr message, st')"
  from createMessage_Inr [OF ok] obtain g ms b c n where
    *: "Copy env = Inr (ms, b)" "Nation (member env) \<in> set ms"
       "set ms \<subseteq> set (Variants env (Variant (game env)))"
       "message = \<lparr>ID = Some (Key messageKind [] n (Some c)),
             Message.GameID = Some g,
             ChannelMembers = sort_Sort ms, Sender = Nation (member env),
             Body = b, CreatedAt = Now env\<rparr>"
       "messages st' = messages st @ [(Key messageKind [] n (Some c), message\<lparr>ID := None\<rparr>)]"
    by blast
  show "Sender message \<in> set (ChannelMembers message)"
    using * by (simp add: set_sort_Sort)
  show "set (ChannelMembers message) \<subseteq> set (Variants env (Variant (game env)))"
    using * by (simp add: set_sort_Sort)
  show "\<exists>k. ID message = Some k \<and> messages st' = messages st @ [(k, message\<lparr>ID := None\<rparr>)]"
    using * by simp
qed

lemma createMessage_env0:
  "createMessage env0 emptyStore =
     (Inr ((message_at 100)\<lparr>ID := Some (Key ''Message'' [] 1 (Some channelEF))\<rparr>),
      \<lparr>channels =
         [(channelEF, \<lparr>Channel.GameID = Some game7, Members = [''ENGLAND'', ''FRANCE''],
              Channel.NMessages = 1, NMessagesSince = zeroNMessagesSince\<rparr>)],
       messages = [(Key ''Message'' [] 1 (Some channelEF), message_at 100)]\<rparr>)"
  by (simp add: createMessage_def createMessage_tx_def datastore_Get_def Let_def sort_FE
      ChannelID_game7_EF env0_def emptyStore_def trioVariants_def message_at_def zeroChannel_def
      messageKind_def)

theorem createMessage_validation_witness:
  "createMessage (env0\<lparr>Copy := Inr ([''FRANCE'', ''GERMANY''], ''hi'')\<rparr>) emptyStore =
     (Inl (HTTPError 403 ''can only send messages to member channels''), emptyStore) \<and>
   createMessage (env0\<lparr>Copy := Inr ([''ENGLAND'', ''MARS''], ''hi'')\<rparr>) emptyStore =
     (Inl (HTTPError 400 ''unknown channel member''), emptyStore) \<and>
   fst (createMessage env0 emptyStore) =
     Inr ((message_at 100)\<lparr>ID := Some (Key ''Message'' [] 1 (Some channelEF))\<rparr>) \<and>
   Sender (message_at 100) \<in> set (ChannelMembers (message_at 100)) \<and>
   set (ChannelMembers (message_at 100)) \<subseteq> set (trioVariants ''Trio'') \<and>
   messages (snd (createMessage env0 emptyStore)) =
     [(Key ''Message'' [] 1 (Some channelEF), message_at 100)]"
proof -
  let ?m = "Inr (Key ''Member'' ''u1'' 0 (Some game7)) :: error + key"
  let ?e1 = "env0\<lparr>Copy := Inr ([''FRANCE'', ''GERMANY''], ''hi'')\<rparr>"
  let ?e2 = "env0\<lparr>Copy := Inr ([''ENGLAND'', ''MARS''], ''hi'')\<rparr>"
  have a: "createMessage ?e1 emptyStore =
      (Inl (HTTPError 403 ''can only send messages to member channels''), emptyStore)"
    using createMessage_validation [of ?e1 "''u1''" game7 "Key ''Member'' ''u1'' 0 (Some game7)"
        "[''FRANCE'', ''GERMANY'']" "''hi''" emptyStore]
    by (simp add: env0_def)
  have b: "createMessage ?e2 emptyStore =
      (Inl (HTTPError 400 ''unknown channel member''), emptyStore)"
    using createMessage_validation [of ?e2 "''u1''" game7 "Key ''Member'' ''u1'' 0 (Some game7)"
        "[''ENGLAND'', ''MARS'']" "''hi''" emptyStore]
    by (simp add: env0_def trioVariants_def)
  have c: "Sender (message_at 100) \<in> set (ChannelMembers (message_at 100)) \<and>
      set (ChannelMembers (message_at 100)) \<subseteq> set (trioVariants ''Trio'')"
    using createMessage_validation [of env0 "''u1''" game7 "Key ''Member'' ''u1'' 0 (Some game7)"
        "[''FRANCE'', ''ENGLAND'']" "''hello''" emptyStore] createMessage_env0
    by (simp add: env0_def)
  from a b c createMessage_env0 show ?thesis by simp
qed

text \<open>The example stores are what the write path builds from the empty store.\<close>

lemma store2_reached:
  "snd (createMessage (env0\<lparr>Put_message := Inr 2, Now := 200\<rparr>)
         (snd (createMessage env0 emptyStore))) = store2"
  by (simp add: createMessage_def createMessage_tx_def datastore_Get_def Let_def sort_FE
      ChannelID_game7_EF env0_def emptyStore_def trioVariants_def store2_def message_at_def
      zeroChannel_def messageKind_def)

lemma store3_reached:
  "snd (createMessage
         (env0\<lparr>member := \<lparr>Nation = ''GERMANY''\<rparr>,
            Copy := Inr ([''GERMANY'', ''FRANCE'', ''ENGLAND''], ''hi all''),
            Put_message := Inr 3, Now := 150\<rparr>) store2) = store3"
proof -
  have s: "sort_Sort [''GERMANY'', ''FRANCE'', ''ENGLAND''] =
      [''ENGLAND'', ''FRANCE'', ''GERMANY'']"
    by (simp add: sort_Sort_def)
  have c: "ChannelID (Some game7) [''ENGLAND'', ''FRANCE'', ''GERMANY''] = Inr channelEFG"
    by (simp add: ChannelID_def game7_def channelEFG_def channelKind_def fmt_d_7 String_def)
  have n: "channelEF \<noteq> channelEFG" "channelEFG \<noteq> channelEF"
    by (simp_all add: channelEF_def channelEFG_def)
  show ?thesis
    by (simp add: createMessage_def createMessage_tx_def datastore_Get_def Let_def s c n
        env0_def trioVariants_def store2_def store3_def message_at_def public_message_def
        privateEF_def publicEFG_def zeroChannel_def messageKind_def)
qed

text \<open>
  C6, as the claim states it, fails where both checks would reject: GERMANY sends to
  FRANCE and MARS. MARS is not in the roster, and the answer is 403, not 400: the
  membership check comes first.
\<close>

theorem createMessage_nonmember_unknown_is_403:
  "''MARS'' \<in> set [''FRANCE'', ''MARS''] \<and>
   ''MARS'' \<notin> set (trioVariants ''Trio'') \<and>
   createMessage (env0\<lparr>member := \<lparr>Nation = ''GERMANY''\<rparr>,
                        Copy := Inr ([''FRANCE'', ''MARS''], ''hi'')\<rparr>) emptyStore =
     (Inl (HTTPError 403 ''can only send messages to member channels''), emptyStore) \<and>
   fst (createMessage (env0\<lparr>member := \<lparr>Nation = ''GERMANY''\<rparr>,
                        Copy := Inr ([''FRANCE'', ''MARS''], ''hi'')\<rparr>) emptyStore) \<noteq>
     Inl (HTTPError 400 ''unknown channel member'')"
  by (simp add: createMessage_def env0_def trioVariants_def sort_Sort_def)

lemma map_of_put_entity: "map_of (put_entity k v es) = (map_of es)(k \<mapsto> v)"
  by (induction es) (auto simp: fun_eq_iff)

text \<open>
  When \<open>datastore.Get\<close> does not fail, a transaction that succeeds adds one to the
  counter of the channel, starts a channel that was absent at 0 with the given
  members, and adds one message.
\<close>

lemma createMessage_tx_counts:
  assumes "createMessage_tx env st gameID channelID message = (Inr message', st')"
    and "Get_fault env = None"
  shows "\<exists>c'. map_of (channels st') channelID = Some c' \<and>
           Channel.NMessages c' =
             (case map_of (channels st) channelID of
                None \<Rightarrow> 0
              | Some c \<Rightarrow> Channel.NMessages c) + 1 \<and>
           (map_of (channels st) channelID = None \<longrightarrow>
              Members c' = ChannelMembers message \<and> Channel.GameID c' = Some gameID) \<and>
           length (messages st') = length (messages st) + 1"
  using assms
  by (auto simp: createMessage_tx_def datastore_Get_def Let_def map_of_put_entity zeroChannel_def
      split: sum.splits option.splits)

text \<open>
  C8, as the code has it. A call that has passed authentication, the lookups and
  the decoding of the request, and whose destination set has a member that is not
  in the roster of the game's variant, fails and leaves the messages and the
  channels (so every counter) as they were: with 400 (InvalidArgument) when the
  sender is among the destination members, with 403 (Forbidden) when not.
\<close>

theorem createMessage_unknown_member_no_mutation:
  assumes "user env = Some u" and "DecodeKey env = Inr gameID"
    and "MemberID env = Inr memberID" and "GetMulti_err env = None"
    and "Copy env = Inr (members, body)"
    and "m \<in> set members" and "m \<notin> set (Variants env (Variant (game env)))"
  shows
    "fst (createMessage env st) =
       Inl (if Nation (member env) \<in> set members
            then HTTPError 400 ''unknown channel member''
            else HTTPError 403 ''can only send messages to member channels'') \<and>
     messages (snd (createMessage env st)) = messages st \<and>
     channels (snd (createMessage env st)) = channels st"
proof -
  from assms(6,7) have "\<not> set members \<subseteq> set (Variants env (Variant (game env)))"
    by blast
  with assms(1-5) show ?thesis
    by (simp add: createMessage_def Includes_set set_sort_Sort unknownMember_set)
qed

theorem createMessage_unknown_member_no_mutation_witness:
  "''MARS'' \<in> set [''ENGLAND'', ''MARS''] \<and>
   ''MARS'' \<notin> set (trioVariants ''Trio'') \<and>
   fst (createMessage (env0\<lparr>Copy := Inr ([''ENGLAND'', ''MARS''], ''hi'')\<rparr>) store2) =
     Inl (HTTPError 400 ''unknown channel member'') \<and>
   messages (snd (createMessage (env0\<lparr>Copy := Inr ([''ENGLAND'', ''MARS''], ''hi'')\<rparr>) store2)) =
     messages store2 \<and>
   channels (snd (createMessage (env0\<lparr>Copy := Inr ([''ENGLAND'', ''MARS''], ''hi'')\<rparr>) store2)) =
     channels store2"
  using createMessage_unknown_member_no_mutation
    [of "env0\<lparr>Copy := Inr ([''ENGLAND'', ''MARS''], ''hi'')\<rparr>" "''u1''" game7
        "Key ''Member'' ''u1'' 0 (Some game7)" "[''ENGLAND'', ''MARS'']" "''hi''" "''MARS''" store2]
  by (simp add: env0_def trioVariants_def)

text \<open>
  C8, as the claim states it, fails for a sender outside the destination set:
  ENGLAND sends to FRANCE, GERMANY and SPAIN. SPAIN is not in the roster, and the
  answer is 403, not 400.
\<close>

theorem createMessage_unknown_member_by_outsider_is_403:
  "''SPAIN'' \<in> set [''FRANCE'', ''GERMANY'', ''SPAIN''] \<and>
   ''SPAIN'' \<notin> set (trioVariants ''Trio'') \<and>
   fst (createMessage (env0\<lparr>Copy := Inr ([''FRANCE'', ''GERMANY'', ''SPAIN''], ''hi'')\<rparr>) store2) =
     Inl (HTTPError 403 ''can only send messages to member channels'') \<and>
   fst (createMessage (env0\<lparr>Copy := Inr ([''FRANCE'', ''GERMANY'', ''SPAIN''], ''hi'')\<rparr>) store2) \<noteq>
     Inl (HTTPError 400 ''unknown channel member'')"
  by (simp add: createMessage_def env0_def trioVariants_def sort_Sort_def)

text \<open>
  C2 at a failing input. The channel of ENGLAND and FRANCE has two messages and the
  counter 2. During the third send \<open>datastore.Get\<close> fails with an error that is not
  \<open>ErrNoSuchEntity\<close>, and both \<open>Put\<close>s and the commit succeed. The call succeeds; the
  channel has three messages, and its record is the zero value with the counter 1.
\<close>

theorem createMessage_Get_error_resets_counter:
  "map_of (channels store2) channelEF =
     Some \<lparr>Channel.GameID = Some game7, Members = [''ENGLAND'', ''FRANCE''],
           Channel.NMessages = 2, NMessagesSince = zeroNMessagesSince\<rparr> \<and>
   length (filter (\<lambda>(k, m). parent k = Some channelEF) (messages store2)) = 2 \<and>
   fst (createMessage (env0\<lparr>Get_fault := Some (Err ''datastore: internal error''),
                            Put_message := Inr 3, Now := 300\<rparr>) store2) =
     Inr ((message_at 300)\<lparr>ID := Some (Key ''Message'' [] 3 (Some channelEF))\<rparr>) \<and>
   map_of (channels (snd (createMessage
       (env0\<lparr>Get_fault := Some (Err ''datastore: internal error''),
              Put_message := Inr 3, Now := 300\<rparr>) store2))) channelEF =
     Some \<lparr>Channel.GameID = None, Members = [],
           Channel.NMessages = 1, NMessagesSince = zeroNMessagesSince\<rparr> \<and>
   length (filter (\<lambda>(k, m). parent k = Some channelEF) (messages (snd (createMessage
       (env0\<lparr>Get_fault := Some (Err ''datastore: internal error''),
              Put_message := Inr 3, Now := 300\<rparr>) store2)))) = 3"
  by (simp add: createMessage_def createMessage_tx_def datastore_Get_def Let_def sort_FE
      ChannelID_game7_EF env0_def trioVariants_def store2_def message_at_def zeroChannel_def
      messageKind_def)

section \<open>Reading a channel\<close>

lemma ChannelID_root: "ChannelID g ms = Inr k \<Longrightarrow> parent k = None"
  by (auto simp: ChannelID_def split: option.splits if_splits)

lemma has_ancestor_child:
  assumes "parent c = None" and "parent k = Some p" and "parent p = None"
  shows "has_ancestor c k \<longleftrightarrow> p = c"
proof (cases k)
  case k: (Key kk ks ki kp)
  with assms have kp: "kp = Some p" by simp
  show ?thesis
  proof (cases p)
    case p: (Key pk ps pi pp)
    with assms have "pp = None" by simp
    with k kp p assms(1) show ?thesis by auto
  qed
qed

lemma sameNations_eq: "length p = length m \<Longrightarrow> sameNations p m \<longleftrightarrow> m = p"
  by (induction p m rule: sameNations.induct) auto

lemma isPublic_iff:
  "fst (isPublic env variant members) \<longleftrightarrow>
     sort_Sort members = sort_Sort (Variants env variant)"
  by (auto simp: isPublic_def publicChannel_def Let_def sameNations_eq)

lemma isPublic_snd: "snd (isPublic env variant members) = sort_Sort members"
  by (simp add: isPublic_def Let_def)

lemma createMessage_tx_wf:
  assumes "message_keys_wf st" and "parent channelID = None"
  shows "message_keys_wf (snd (createMessage_tx env st gameID channelID message))"
  using assms
  by (auto simp: createMessage_tx_def message_keys_wf_def Let_def split: sum.splits option.splits)

text \<open>The write path keeps the store well-formed, and the empty store is.\<close>

lemma createMessage_wf:
  assumes "message_keys_wf st"
  shows "message_keys_wf (snd (createMessage env st))"
  using assms
  by (auto simp: createMessage_def Let_def createMessage_tx_wf ChannelID_root
      split: sum.splits option.splits prod.splits)

lemma emptyStore_wf: "message_keys_wf emptyStore"
  by (simp add: message_keys_wf_def emptyStore_def)

lemma queryMessages_sorted:
  "sorted_wrt (\<lambda>a b. CreatedAt b \<le> CreatedAt a) (queryMessages st channelID since)"
proof -
  have "sorted (map (\<lambda>(k, m). - CreatedAt m) (sort_key (\<lambda>(k, m). - CreatedAt m) q))" for q :: "(key \<times> Message) list"
    by (rule sorted_sort_key)
  then have "sorted_wrt (\<lambda>a b. CreatedAt b \<le> CreatedAt a)
      (map snd (sort_key (\<lambda>(k, m). - CreatedAt m) q))" for q :: "(key \<times> Message) list"
    by (simp add: sorted_wrt_map case_prod_beta)
  then show ?thesis
    by (simp add: queryMessages_def Let_def)
qed

lemma queryMessages_mset:
  assumes "message_keys_wf st" and "parent channelID = None"
  shows "mset (queryMessages st channelID since) =
     mset (map snd (filter
       (\<lambda>(k, m). parent k = Some channelID \<and>
          (case since of None \<Rightarrow> True | Some t \<Rightarrow> t < CreatedAt m)) (messages st)))"
proof -
  have eq: "filter (\<lambda>(k, m). has_ancestor channelID k) (messages st) =
      filter (\<lambda>(k, m). parent k = Some channelID) (messages st)"
  proof (rule filter_cong [OF refl])
    fix x assume x: "x \<in> set (messages st)"
    obtain k m where km: "x = (k, m)" by (cases x)
    from assms(1) x km obtain p where "parent k = Some p" "parent p = None"
      by (auto simp: message_keys_wf_def list_all_iff split: option.splits)
    with assms(2) km show "(case x of (k, m) \<Rightarrow> has_ancestor channelID k) =
        (case x of (k, m) \<Rightarrow> parent k = Some channelID)"
      by (simp add: has_ancestor_child)
  qed
  show ?thesis
    by (cases since) (simp_all add: queryMessages_def Let_def eq case_prod_beta conj_commute)
qed

lemma FromString_EF: "FromString ''ENGLAND,FRANCE'' = [''ENGLAND'', ''FRANCE'']"
  by (simp add: FromString_def strings_Split.simps)

lemma FromString_GFE:
  "FromString ''GERMANY,FRANCE,ENGLAND'' = [''GERMANY'', ''FRANCE'', ''ENGLAND'']"
  by (simp add: FromString_def strings_Split.simps)

lemma listMessages_allowed:
  assumes "user env = Some u" and "DecodeKey env = Inr gameID"
    and "sinceOf env = Inr since" and "MemberID env = Inr memberID"
    and "requesterNation env = Inr nation"
  shows "listMessages env st =
     (if nation \<notin> set (FromString (channel_members env)) \<and>
         sort_Sort (FromString (channel_members env)) \<noteq>
           sort_Sort (Variants env (Variant (game env)))
      then Inl (HTTPError 403 ''can only list member channels'')
      else
        (case ChannelID (Some gameID)
            (if nation \<in> set (FromString (channel_members env))
             then FromString (channel_members env)
             else sort_Sort (FromString (channel_members env))) of
           Inl err \<Rightarrow> Inl (Return err)
         | Inr channelID \<Rightarrow>
             (case GetAll_fault env of
                Some err \<Rightarrow> Inl (Return err)
              | None \<Rightarrow> Inr (queryMessages st channelID since))))"
proof (cases "nation \<in> set (FromString (channel_members env))")
  case True
  with assms show ?thesis
    by (simp add: listMessages_def Let_def Includes_set)
next
  case False
  obtain b ms where ip: "isPublic env (Variant (game env)) (FromString (channel_members env)) = (b, ms)"
    by (cases "isPublic env (Variant (game env)) (FromString (channel_members env))")
  from ip isPublic_iff [of env "Variant (game env)" "FromString (channel_members env)"]
  have b: "b \<longleftrightarrow> sort_Sort (FromString (channel_members env)) =
      sort_Sort (Variants env (Variant (game env)))"
    by simp
  from ip isPublic_snd [of env "Variant (game env)" "FromString (channel_members env)"]
  have ms: "ms = sort_Sort (FromString (channel_members env))"
    by simp
  from assms False ip show ?thesis
    by (simp add: listMessages_def Let_def Includes_set b ms)
qed

text \<open>
  The answer 403 in terms of the nation the lookup left: once authentication, the
  decoding of the game key and of the cutoff, and the lookups have passed,
  \<open>listMessages\<close> answers 403 exactly when that nation is not among the requested
  identifiers and the identifiers, sorted, are not the sorted roster.
\<close>

lemma listMessages_403_iff:
  assumes "user env = Some u" and "DecodeKey env = Inr gameID"
    and "sinceOf env = Inr since" and "MemberID env = Inr memberID"
    and "requesterNation env = Inr nation"
  shows
    "(listMessages env st = Inl (HTTPError 403 ''can only list member channels'')) =
       (nation \<notin> set (FromString (channel_members env)) \<and>
        sort_Sort (FromString (channel_members env)) \<noteq>
          sort_Sort (Variants env (Variant (game env)))) \<and>
     (sort_Sort (FromString (channel_members env)) =
          sort_Sort (Variants env (Variant (game env))) \<and>
      2 \<le> length (Variants env (Variant (game env))) \<and> intID gameID \<noteq> 0 \<and>
      GetAll_fault env = None \<longrightarrow>
        (\<exists>result. listMessages env st = Inr result))"
proof (intro conjI impI)
  show "(listMessages env st = Inl (HTTPError 403 ''can only list member channels'')) =
       (nation \<notin> set (FromString (channel_members env)) \<and>
        sort_Sort (FromString (channel_members env)) \<noteq>
          sort_Sort (Variants env (Variant (game env))))"
    by (simp add: listMessages_allowed [OF assms] split: sum.splits option.splits)
next
  assume pub: "sort_Sort (FromString (channel_members env)) =
          sort_Sort (Variants env (Variant (game env))) \<and>
      2 \<le> length (Variants env (Variant (game env))) \<and> intID gameID \<noteq> 0 \<and>
      GetAll_fault env = None"
  then have "length (sort_Sort (FromString (channel_members env))) =
      length (sort_Sort (Variants env (Variant (game env))))"
    by simp
  then have len: "length (FromString (channel_members env)) =
      length (Variants env (Variant (game env)))"
    by (simp add: sort_Sort_def)
  from pub len show "\<exists>result. listMessages env st = Inr result"
    by (simp add: listMessages_allowed [OF assms] ChannelID_def sort_Sort_def)
qed

text \<open>
  The query of an allowed request, on a store built by the write path: the handler
  returns exactly the messages whose parent is the key it derives and, when a cutoff
  is given, whose \<open>CreatedAt\<close> is strictly greater than it, by \<open>CreatedAt\<close>
  descending. The key is derived from the requested members as they are when the
  requester is among them, and from the sorted members otherwise.
\<close>

lemma listMessages_under_derived_key:
  assumes "user env = Some u" and "DecodeKey env = Inr gameID"
    and "sinceOf env = Inr since" and "MemberID env = Inr memberID"
    and "requesterNation env = Inr nation"
    and "nation \<in> set (FromString (channel_members env)) \<or>
         sort_Sort (FromString (channel_members env)) =
           sort_Sort (Variants env (Variant (game env)))"
    and "ChannelID (Some gameID)
           (if nation \<in> set (FromString (channel_members env))
            then FromString (channel_members env)
            else sort_Sort (FromString (channel_members env))) = Inr channelID"
    and "GetAll_fault env = None"
    and "message_keys_wf st"
  shows
    "\<exists>result. listMessages env st = Inr result \<and>
       mset result =
         mset (map snd (filter
           (\<lambda>(k, m). parent k = Some channelID \<and>
              (case since of None \<Rightarrow> True | Some t \<Rightarrow> t < CreatedAt m)) (messages st))) \<and>
       sorted_wrt (\<lambda>a b. CreatedAt b \<le> CreatedAt a) result"
proof -
  from assms(6-8) have "listMessages env st = Inr (queryMessages st channelID since)"
    by (simp add: listMessages_allowed [OF assms(1-5)])
  moreover from assms(7) have "parent channelID = None"
    by (rule ChannelID_root)
  ultimately show ?thesis
    using queryMessages_mset [OF assms(9), of channelID since]
      queryMessages_sorted [of st channelID since]
    by simp
qed

lemma env0_sel:
  "user env0 = Some ''u1''"
  "DecodeKey env0 = Inr game7"
  "MemberID env0 = Inr (Key ''Member'' ''u1'' 0 (Some game7))"
  "GetMulti_err env0 = None"
  "Variant (game env0) = ''Trio''"
  "Nation (member env0) = ''ENGLAND''"
  "Copy env0 = Inr ([''FRANCE'', ''ENGLAND''], ''hello'')"
  "Now env0 = 100"
  "Variants env0 = trioVariants"
  "Get_fault env0 = None"
  "Put_message env0 = Inr 1"
  "Put_channel env0 = None"
  "Commit env0 = None"
  "channel_members env0 = ''ENGLAND,FRANCE''"
  "since_param env0 = []"
  "GetAll_fault env0 = None"
  "Count_fault env0 = (\<lambda>k. None)"
  "arrival env0 = []"
  by (simp_all add: env0_def)

lemma trio_roster: "trioVariants ''Trio'' = [''ENGLAND'', ''FRANCE'', ''GERMANY'']"
  by (simp add: trioVariants_def)

lemma sinceOf_100:
  "sinceOf (env0\<lparr>since_param := ''0001-01-01T00:01:40Z'', Parse := Inr 100\<rparr>) = Inr (Some 100)"
  by (simp add: sinceOf_def env0_def)

lemma store2_wf: "message_keys_wf store2"
  by (simp add: message_keys_wf_def store2_def channelEF_def)

lemma queryMessages_store2_100:
  "queryMessages store2 channelEF (Some 100) = [message_at 200]"
  by (simp add: queryMessages_def store2_def channelEF_def message_at_def)

lemma listMessages_since_100:
  "listMessages (env0\<lparr>since_param := ''0001-01-01T00:01:40Z'', Parse := Inr 100\<rparr>) store2 =
     Inr [message_at 200]"
proof -
  let ?env = "env0\<lparr>since_param := ''0001-01-01T00:01:40Z'', Parse := Inr 100\<rparr>"
  have p1: "user ?env = Some ''u1''" by (simp add: env0_def)
  have p2: "DecodeKey ?env = Inr game7" by (simp add: env0_def)
  have p4: "MemberID ?env = Inr (Key ''Member'' ''u1'' 0 (Some game7))" by (simp add: env0_def)
  have p5: "requesterNation ?env = Inr ''ENGLAND''"
    by (simp add: requesterNation_def env0_def)
  show ?thesis
    by (simp add: listMessages_allowed [OF p1 p2 sinceOf_100 p4 p5] env0_sel FromString_EF
        ChannelID_game7_EF queryMessages_store2_100)
qed

lemma queryMessages_store2_all:
  "queryMessages store2 channelEF None = [message_at 200, message_at 100]"
  by (simp add: queryMessages_def store2_def channelEF_def message_at_def)

lemma env0_nation: "requesterNation env0 = Inr ''ENGLAND''"
  by (simp add: requesterNation_def env0_sel)

lemma env0_since: "sinceOf env0 = Inr None"
  by (simp add: sinceOf_def env0_sel)

lemma listMessages_all:
  "listMessages env0 store2 = Inr [message_at 200, message_at 100]"
  by (simp add: listMessages_allowed [OF env0_sel(1,2) env0_since env0_sel(3) env0_nation]
      env0_sel FromString_EF ChannelID_game7_EF queryMessages_store2_all)

lemma observer_sel:
  "user observer = Some ''u1''"
  "DecodeKey observer = Inr game7"
  "MemberID observer = Inr (Key ''Member'' ''u1'' 0 (Some game7))"
  "GetMulti_err observer = Some (MultiError [None, Some ErrNoSuchEntity])"
  "Variant (game observer) = ''Trio''"
  "Variants observer = trioVariants"
  "Get_fault observer = None"
  "channel_members observer = ''ENGLAND,FRANCE''"
  "since_param observer = []"
  "GetAll_fault observer = None"
  "Count_fault observer = (\<lambda>k. None)"
  "arrival observer = []"
  by (simp_all add: observer_def env0_def)

lemma observer_nation: "requesterNation observer = Inr []"
  by (simp add: requesterNation_def observer_sel)

lemma sort_EFG:
  "sort_Sort [''GERMANY'', ''FRANCE'', ''ENGLAND''] = [''ENGLAND'', ''FRANCE'', ''GERMANY'']"
  "sort_Sort [''ENGLAND'', ''FRANCE'', ''GERMANY''] = [''ENGLAND'', ''FRANCE'', ''GERMANY'']"
  by (simp_all add: sort_Sort_def)

lemma ChannelID_game7_EFG:
  "ChannelID (Some game7) [''ENGLAND'', ''FRANCE'', ''GERMANY''] = Inr channelEFG"
  by (simp add: ChannelID_def game7_def channelEFG_def channelKind_def fmt_d_7 String_def)

lemma queryMessages_store3_public:
  "queryMessages store3 channelEFG None = [public_message]"
  by (simp add: queryMessages_def store3_def channelEF_def channelEFG_def)

lemma listMessages_observer_public:
  "listMessages (observer\<lparr>channel_members := ''GERMANY,FRANCE,ENGLAND''\<rparr>) store3 =
     Inr [public_message]"
proof -
  let ?o = "observer\<lparr>channel_members := ''GERMANY,FRANCE,ENGLAND''\<rparr>"
  have p1: "user ?o = Some ''u1''" by (simp add: observer_sel)
  have p2: "DecodeKey ?o = Inr game7" by (simp add: observer_sel)
  have p3: "sinceOf ?o = Inr None" by (simp add: sinceOf_def observer_sel)
  have p4: "MemberID ?o = Inr (Key ''Member'' ''u1'' 0 (Some game7))"
    by (simp add: observer_sel)
  have p5: "requesterNation ?o = Inr []"
    by (simp add: requesterNation_def observer_sel)
  show ?thesis
    by (simp add: listMessages_allowed [OF p1 p2 p3 p4 p5] observer_sel trio_roster
        FromString_GFE sort_EFG ChannelID_game7_EFG queryMessages_store3_public)
qed

lemma requesterNation_member:
  "GetMulti_err env = None \<Longrightarrow> requesterNation env = Inr (Nation (member env))"
  by (simp add: requesterNation_def)

lemma requesterNation_no_member:
  "GetMulti_err env = Some (MultiError (None # rest)) \<Longrightarrow> requesterNation env = Inr []"
  by (simp add: requesterNation_def)

text \<open>
  A request that names the members in sorted order reads the channel of these
  members, whoever asks.
\<close>

lemma listMessages_sorted_request:
  assumes "user env = Some u" and "DecodeKey env = Inr gameID"
    and "sinceOf env = Inr since" and "MemberID env = Inr memberID"
    and "requesterNation env = Inr nation"
    and "sort_Sort (FromString (channel_members env)) = FromString (channel_members env)"
    and "nation \<in> set (FromString (channel_members env)) \<or>
         sort_Sort (FromString (channel_members env)) =
           sort_Sort (Variants env (Variant (game env)))"
    and "ChannelID (Some gameID) (sort_Sort (FromString (channel_members env))) = Inr channelID"
    and "GetAll_fault env = None"
    and "message_keys_wf st"
  shows
    "\<exists>result. listMessages env st = Inr result \<and>
       mset result =
         mset (map snd (filter
           (\<lambda>(k, m). parent k = Some channelID \<and>
              (case since of None \<Rightarrow> True | Some t \<Rightarrow> t < CreatedAt m)) (messages st))) \<and>
       sorted_wrt (\<lambda>a b. CreatedAt b \<le> CreatedAt a) result"
proof -
  from assms(6,8) have "ChannelID (Some gameID)
           (if nation \<in> set (FromString (channel_members env))
            then FromString (channel_members env)
            else sort_Sort (FromString (channel_members env))) = Inr channelID"
    by simp
  from listMessages_under_derived_key [OF assms(1-5) assms(7) this assms(9,10)] show ?thesis .
qed

lemma FromString_FE: "FromString ''FRANCE,ENGLAND'' = [''FRANCE'', ''ENGLAND'']"
  by (simp add: FromString_def strings_Split.simps)

lemma FromString_empty_E: "FromString '',ENGLAND'' = [[], ''ENGLAND'']"
  by (simp add: FromString_def strings_Split.simps)

lemma ChannelID_game7_FE:
  "ChannelID (Some game7) [''FRANCE'', ''ENGLAND''] =
     Inr (Key ''Channel'' ''7:FRANCE,ENGLAND'' 0 None)"
  by (simp add: ChannelID_def game7_def channelKind_def fmt_d_7 String_def)

lemma ChannelID_game7_GFE:
  "ChannelID (Some game7) [''GERMANY'', ''FRANCE'', ''ENGLAND''] =
     Inr (Key ''Channel'' ''7:GERMANY,FRANCE,ENGLAND'' 0 None)"
  by (simp add: ChannelID_def game7_def channelKind_def fmt_d_7 String_def)

lemma ChannelID_game7_empty_E:
  "ChannelID (Some game7) [[], ''ENGLAND''] = Inr (Key ''Channel'' ''7:,ENGLAND'' 0 None)"
  by (simp add: ChannelID_def game7_def channelKind_def fmt_d_7 String_def)

lemma no_messages_under_other_keys:
  "queryMessages store2 (Key ''Channel'' ''7:FRANCE,ENGLAND'' 0 None) None = []"
  "queryMessages store3 (Key ''Channel'' ''7:GERMANY,FRANCE,ENGLAND'' 0 None) None = []"
  "queryMessages store3 (Key ''Channel'' ''7:,ENGLAND'' 0 None) None = []"
  by (simp_all add: queryMessages_def store2_def store3_def channelEF_def channelEFG_def)

lemma queryMessages_store3_EF:
  "queryMessages store3 channelEF None = [message_at 200, message_at 100]"
  by (simp add: queryMessages_def store3_def channelEF_def channelEFG_def message_at_def)

lemma member_unsorted_store2:
  "listMessages (env0\<lparr>channel_members := ''FRANCE,ENGLAND''\<rparr>) store2 = Inr []"
proof -
  let ?e = "env0\<lparr>channel_members := ''FRANCE,ENGLAND''\<rparr>"
  have p: "user ?e = Some ''u1''" "DecodeKey ?e = Inr game7" "sinceOf ?e = Inr None"
    "MemberID ?e = Inr (Key ''Member'' ''u1'' 0 (Some game7))"
    "requesterNation ?e = Inr ''ENGLAND''"
    by (simp_all add: env0_sel sinceOf_def requesterNation_def)
  show ?thesis
    by (simp add: listMessages_allowed [OF p] env0_sel FromString_FE ChannelID_game7_FE
        no_messages_under_other_keys)
qed

lemma member_unsorted_store3:
  "listMessages (env0\<lparr>channel_members := ''GERMANY,FRANCE,ENGLAND''\<rparr>) store3 = Inr []"
proof -
  let ?e = "env0\<lparr>channel_members := ''GERMANY,FRANCE,ENGLAND''\<rparr>"
  have p: "user ?e = Some ''u1''" "DecodeKey ?e = Inr game7" "sinceOf ?e = Inr None"
    "MemberID ?e = Inr (Key ''Member'' ''u1'' 0 (Some game7))"
    "requesterNation ?e = Inr ''ENGLAND''"
    by (simp_all add: env0_sel sinceOf_def requesterNation_def)
  show ?thesis
    by (simp add: listMessages_allowed [OF p] env0_sel FromString_GFE ChannelID_game7_GFE
        no_messages_under_other_keys)
qed

text \<open>
  C4 at a failing input. The channel of ENGLAND and FRANCE holds two messages,
  stored under the key of the sorted members. ENGLAND, asking for
  \<open>ENGLAND,FRANCE\<close>, gets both; asking for \<open>FRANCE,ENGLAND\<close>, the same channel,
  it gets none: the requester is among the members, so \<open>isPublic\<close> is not called,
  the members stay unsorted and the key derived is another one. On the public
  channel the observer, for whom \<open>isPublic\<close> sorts the members, gets the message
  with \<open>GERMANY,FRANCE,ENGLAND\<close>, and the member ENGLAND gets none.
\<close>

theorem listMessages_member_unsorted_request:
  "ChannelID (Some game7) (sort_Sort (FromString ''FRANCE,ENGLAND'')) = Inr channelEF \<and>
   map snd (filter (\<lambda>(k, m). parent k = Some channelEF) (messages store2)) =
     [message_at 100, message_at 200] \<and>
   listMessages env0 store2 = Inr [message_at 200, message_at 100] \<and>
   listMessages (env0\<lparr>channel_members := ''FRANCE,ENGLAND''\<rparr>) store2 = Inr [] \<and>
   listMessages (observer\<lparr>channel_members := ''GERMANY,FRANCE,ENGLAND''\<rparr>) store3 =
     Inr [public_message] \<and>
   listMessages (env0\<lparr>channel_members := ''GERMANY,FRANCE,ENGLAND''\<rparr>) store3 = Inr []"
proof -
  have a: "ChannelID (Some game7) (sort_Sort (FromString ''FRANCE,ENGLAND'')) = Inr channelEF"
    by (simp add: FromString_FE sort_FE ChannelID_game7_EF)
  have b: "map snd (filter (\<lambda>(k, m). parent k = Some channelEF) (messages store2)) =
     [message_at 100, message_at 200]"
    by (simp add: store2_def)
  from a b listMessages_all member_unsorted_store2 listMessages_observer_public
    member_unsorted_store3
  show ?thesis
    by (intro conjI)
qed

lemma observer_empty_identifier:
  "listMessages (observer\<lparr>channel_members := '',ENGLAND''\<rparr>) store3 = Inr []"
proof -
  let ?e = "observer\<lparr>channel_members := '',ENGLAND''\<rparr>"
  have p: "user ?e = Some ''u1''" "DecodeKey ?e = Inr game7" "sinceOf ?e = Inr None"
    "MemberID ?e = Inr (Key ''Member'' ''u1'' 0 (Some game7))"
    "requesterNation ?e = Inr []"
    by (simp_all add: observer_sel sinceOf_def requesterNation_def)
  show ?thesis
    by (simp add: listMessages_allowed [OF p] observer_sel FromString_empty_E
        ChannelID_game7_empty_E no_messages_under_other_keys)
qed

lemma observer_private_403:
  "listMessages observer store3 = Inl (HTTPError 403 ''can only list member channels'')"
proof -
  have p: "user observer = Some ''u1''" "DecodeKey observer = Inr game7"
    "sinceOf observer = Inr None"
    "MemberID observer = Inr (Key ''Member'' ''u1'' 0 (Some game7))"
    "requesterNation observer = Inr []"
    by (simp_all add: observer_sel sinceOf_def requesterNation_def)
  show ?thesis
    by (simp add: listMessages_allowed [OF p] observer_sel FromString_EF trio_roster
        sort_Sort_def)
qed

lemma member_reads_own_channel:
  "listMessages env0 store3 = Inr [message_at 200, message_at 100]"
  by (simp add: listMessages_allowed [OF env0_sel(1,2) env0_since env0_sel(3) env0_nation]
      env0_sel FromString_EF ChannelID_game7_EF queryMessages_store3_EF)

lemma member_lookup_error_403:
  "listMessages
     (env0\<lparr>GetMulti_err := Some (MultiError [None, Some (Err ''datastore: internal error'')]),
        member := \<lparr>Nation = []\<rparr>\<rparr>) store3 =
     Inl (HTTPError 403 ''can only list member channels'')"
proof -
  let ?e = "env0\<lparr>GetMulti_err := Some (MultiError [None, Some (Err ''datastore: internal error'')]),
        member := \<lparr>Nation = []\<rparr>\<rparr>"
  have p: "user ?e = Some ''u1''" "DecodeKey ?e = Inr game7" "sinceOf ?e = Inr None"
    "MemberID ?e = Inr (Key ''Member'' ''u1'' 0 (Some game7))"
    "requesterNation ?e = Inr []"
    by (simp_all add: env0_sel sinceOf_def requesterNation_def)
  show ?thesis
    by (simp add: listMessages_allowed [OF p] env0_sel FromString_EF trio_roster sort_Sort_def)
qed

text \<open>
  C5 at failing inputs. An observer has no role, and the handler has the empty
  string for it. The observer asks for \<open>,ENGLAND\<close>, whose first identifier is
  empty: the channel is not public and the observer is no member of it, yet the
  answer is not 403 but an empty list. (For \<open>ENGLAND,FRANCE\<close> the observer gets 403,
  and the member ENGLAND gets the messages.) And when the lookup of ENGLAND's member
  record fails with an error other than its absence, the handler goes on with the
  empty nation and answers ENGLAND's request for its own channel with 403.
\<close>

theorem listMessages_observer_empty_identifier:
  "requesterNation observer = Inr [] \<and>
   FromString '',ENGLAND'' = [[], ''ENGLAND''] \<and>
   sort_Sort [[], ''ENGLAND''] \<noteq> sort_Sort (trioVariants ''Trio'') \<and>
   listMessages (observer\<lparr>channel_members := '',ENGLAND''\<rparr>) store3 = Inr [] \<and>
   listMessages observer store3 = Inl (HTTPError 403 ''can only list member channels'') \<and>
   listMessages env0 store3 = Inr [message_at 200, message_at 100] \<and>
   listMessages
     (env0\<lparr>GetMulti_err := Some (MultiError [None, Some (Err ''datastore: internal error'')]),
        member := \<lparr>Nation = []\<rparr>\<rparr>) store3 =
     Inl (HTTPError 403 ''can only list member channels'')"
proof -
  have a: "sort_Sort [[], ''ENGLAND''] \<noteq> sort_Sort (trioVariants ''Trio'')"
    by (simp add: sort_Sort_def trio_roster)
  from observer_nation FromString_empty_E a observer_empty_identifier observer_private_403
    member_reads_own_channel member_lookup_error_403
  show ?thesis
    by (intro conjI)
qed

section \<open>Channel keys in the handlers\<close>

lemma createMessage_tx_channel:
  assumes "createMessage_tx env st gameID channelID message = (Inr message', st')"
  shows "map_of (channels st') channelID \<noteq> None"
  using assms
  by (auto simp: createMessage_tx_def Let_def map_of_put_entity split: sum.splits option.splits)

lemma createMessage_Inr_key:
  assumes "createMessage env st = (Inr message, st')"
  shows "\<exists>gameID members body channelID newID.
           DecodeKey env = Inr gameID \<and> Copy env = Inr (members, body) \<and>
           ChannelID (Some gameID) (sort_Sort members) = Inr channelID \<and>
           ID message = Some (Key messageKind [] newID (Some channelID)) \<and>
           map_of (channels st') channelID \<noteq> None"
proof -
  from createMessage_Inr [OF assms] obtain gameID members body channelID newID where
    *: "DecodeKey env = Inr gameID" "Copy env = Inr (members, body)"
       "Nation (member env) \<in> set members"
       "set members \<subseteq> set (Variants env (Variant (game env)))"
       "ChannelID (Some gameID) (sort_Sort members) = Inr channelID"
       "message = \<lparr>ID = Some (Key messageKind [] newID (Some channelID)),
             Message.GameID = Some gameID,
             ChannelMembers = sort_Sort members, Sender = Nation (member env),
             Body = body, CreatedAt = Now env\<rparr>"
    by blast
  from assms have u: "user env \<noteq> None" "\<exists>k. MemberID env = Inr k" "GetMulti_err env = None"
    by (auto simp: createMessage_def split: option.splits sum.splits)
  from u * assms have "\<exists>m. createMessage_tx env st gameID channelID m = (Inr message, st')"
    by (auto simp: createMessage_def Includes_set set_sort_Sort unknownMember_set)
  then have "map_of (channels st') channelID \<noteq> None"
    by (auto dest: createMessage_tx_channel)
  with * show ?thesis
    by auto
qed

lemma createMessage_tx_request:
  "createMessage_tx (env\<lparr>DecodeKey := d, Copy := c\<rparr>) st gameID channelID message =
     createMessage_tx env st gameID channelID message"
  by (simp add: createMessage_tx_def datastore_Get_def Let_def
      cong: sum.case_cong option.case_cong)

lemma createMessage_sorted_request:
  assumes "sort_Sort M2 = sort_Sort M1"
  shows "createMessage (env\<lparr>DecodeKey := Inr g, Copy := Inr (M2, body)\<rparr>) st =
       createMessage (env\<lparr>DecodeKey := Inr g, Copy := Inr (M1, body)\<rparr>) st"
  by (cases "user env"; cases "MemberID env"; cases "GetMulti_err env")
    (simp_all add: createMessage_def createMessage_tx_request assms Let_def
      cong: if_cong sum.case_cong)

text \<open>
  C1, as the code has it. \<open>ChannelID\<close> joins the members in the order it is given
  them; the write path sorts the destination before it derives the key. For a game
  key with an integer id and two orderings of the same two or more participants:
  \<open>ChannelID\<close> of the sorted sequences produces one and the same key, made of the
  game's id and the sorted members joined by commas; \<open>createMessage\<close> does the same
  with either ordering as its destination; and a message it stores is a child of
  that key, under which the channel record is stored.
\<close>

theorem channel_key_of_sorted_members:
  assumes "mset M1 = mset M2" and "intID g \<noteq> 0" and "2 \<le> length M1"
  shows
    "ChannelID (Some g) (sort_Sort M1) =
       Inr (Key channelKind (fmt_d (intID g) @ '':'' @ String (sort_Sort M1)) 0 None) \<and>
     ChannelID (Some g) (sort_Sort M2) = ChannelID (Some g) (sort_Sort M1) \<and>
     createMessage (env\<lparr>DecodeKey := Inr g, Copy := Inr (M2, body)\<rparr>) st =
       createMessage (env\<lparr>DecodeKey := Inr g, Copy := Inr (M1, body)\<rparr>) st \<and>
     (\<forall>message st'.
        createMessage (env\<lparr>DecodeKey := Inr g, Copy := Inr (M2, body)\<rparr>) st = (Inr message, st') \<longrightarrow>
          (\<exists>newID. ID message =
             Some (Key messageKind [] newID
               (Some (Key channelKind (fmt_d (intID g) @ '':'' @ String (sort_Sort M1)) 0 None)))) \<and>
          map_of (channels st')
            (Key channelKind (fmt_d (intID g) @ '':'' @ String (sort_Sort M1)) 0 None) \<noteq> None)"
proof (intro conjI allI impI)
  from assms(2,3) show k: "ChannelID (Some g) (sort_Sort M1) =
       Inr (Key channelKind (fmt_d (intID g) @ '':'' @ String (sort_Sort M1)) 0 None)"
    by (simp add: ChannelID_def sort_Sort_def)
  have s: "sort_Sort M2 = sort_Sort M1"
    by (rule sort_Sort_mset [OF assms(1) [symmetric]])
  show "ChannelID (Some g) (sort_Sort M2) = ChannelID (Some g) (sort_Sort M1)"
    by (simp only: s)
  show "createMessage (env\<lparr>DecodeKey := Inr g, Copy := Inr (M2, body)\<rparr>) st =
       createMessage (env\<lparr>DecodeKey := Inr g, Copy := Inr (M1, body)\<rparr>) st"
    by (rule createMessage_sorted_request [OF s])
  fix message st'
  assume ok: "createMessage (env\<lparr>DecodeKey := Inr g, Copy := Inr (M2, body)\<rparr>) st = (Inr message, st')"
  let ?env = "env\<lparr>DecodeKey := Inr g, Copy := Inr (M2, body)\<rparr>"
  from createMessage_Inr_key [OF ok] obtain gameID members b channelID newID where
    *: "DecodeKey ?env = Inr gameID" "Copy ?env = Inr (members, b)"
       "ChannelID (Some gameID) (sort_Sort members) = Inr channelID"
       "ID message = Some (Key messageKind [] newID (Some channelID))"
       "map_of (channels st') channelID \<noteq> None"
    by blast
  from *(1) have "gameID = g"
    by simp
  moreover from *(2) have "members = M2"
    by simp
  ultimately have "ChannelID (Some g) (sort_Sort M1) = Inr channelID"
    using *(3) s by simp
  with k have c: "channelID =
      Key channelKind (fmt_d (intID g) @ '':'' @ String (sort_Sort M1)) 0 None"
    by simp
  from *(4) c show "\<exists>newID. ID message =
             Some (Key messageKind [] newID
               (Some (Key channelKind (fmt_d (intID g) @ '':'' @ String (sort_Sort M1)) 0 None)))"
    by blast
  from *(5) c show "map_of (channels st')
            (Key channelKind (fmt_d (intID g) @ '':'' @ String (sort_Sort M1)) 0 None) \<noteq> None"
    by blast
qed

lemma channelEF_key:
  "Key channelKind (fmt_d (intID game7) @ '':'' @
      String (sort_Sort [''ENGLAND'', ''FRANCE''])) 0 None = channelEF"
  by (simp add: channelKind_def game7_def fmt_d_7 String_def sort_Sort_def channelEF_def)

theorem channel_key_of_sorted_members_witness:
  "mset [''ENGLAND'', ''FRANCE''] = mset [''FRANCE'', ''ENGLAND''] \<and>
   ChannelID (Some game7) (sort_Sort [''ENGLAND'', ''FRANCE'']) = Inr channelEF \<and>
   ChannelID (Some game7) (sort_Sort [''FRANCE'', ''ENGLAND'']) = Inr channelEF \<and>
   createMessage (env0\<lparr>DecodeKey := Inr game7,
       Copy := Inr ([''FRANCE'', ''ENGLAND''], ''hello'')\<rparr>) emptyStore =
     createMessage (env0\<lparr>DecodeKey := Inr game7,
       Copy := Inr ([''ENGLAND'', ''FRANCE''], ''hello'')\<rparr>) emptyStore \<and>
   fst (createMessage env0 emptyStore) =
     Inr ((message_at 100)\<lparr>ID := Some (Key ''Message'' [] 1 (Some channelEF))\<rparr>) \<and>
   map_of (channels (snd (createMessage env0 emptyStore))) channelEF \<noteq> None"
proof -
  have h: "mset [''ENGLAND'', ''FRANCE''] = mset [''FRANCE'', ''ENGLAND'']"
    by simp
  have i: "intID game7 \<noteq> 0" "2 \<le> length [''ENGLAND'', ''FRANCE'']"
    by (simp_all add: game7_def)
  note t = channel_key_of_sorted_members
    [OF h i, where env = env0 and body = "''hello''" and st = emptyStore]
  from t have "ChannelID (Some game7) (sort_Sort [''ENGLAND'', ''FRANCE'']) =
      Inr (Key channelKind (fmt_d (intID game7) @ '':'' @
        String (sort_Sort [''ENGLAND'', ''FRANCE''])) 0 None)"
    by (rule conjunct1)
  then have a: "ChannelID (Some game7) (sort_Sort [''ENGLAND'', ''FRANCE'']) = Inr channelEF"
    by (simp only: channelEF_key)
  from t have "ChannelID (Some game7) (sort_Sort [''FRANCE'', ''ENGLAND'']) =
      ChannelID (Some game7) (sort_Sort [''ENGLAND'', ''FRANCE''])"
    by (rule conjunct1 [OF conjunct2])
  with a have b: "ChannelID (Some game7) (sort_Sort [''FRANCE'', ''ENGLAND'']) = Inr channelEF"
    by simp
  from t have c: "createMessage (env0\<lparr>DecodeKey := Inr game7,
       Copy := Inr ([''FRANCE'', ''ENGLAND''], ''hello'')\<rparr>) emptyStore =
     createMessage (env0\<lparr>DecodeKey := Inr game7,
       Copy := Inr ([''ENGLAND'', ''FRANCE''], ''hello'')\<rparr>) emptyStore"
    by (rule conjunct1 [OF conjunct2 [OF conjunct2]])
  have d: "fst (createMessage env0 emptyStore) =
     Inr ((message_at 100)\<lparr>ID := Some (Key ''Message'' [] 1 (Some channelEF))\<rparr>)"
    by (simp add: createMessage_env0)
  have f: "map_of (channels (snd (createMessage env0 emptyStore))) channelEF \<noteq> None"
    by (simp add: createMessage_env0)
  from h a b c d f show ?thesis
    by (intro conjI)
qed

text \<open>
  C9, as the code has it. \<open>ChannelID\<close> fails exactly when the game key is nil, or
  its integer id is zero, or there are fewer than two members, and gives a key for
  every other input. The failure is one of two plain errors that name the bad
  argument. It has no class: \<open>createMessage\<close> and \<open>listMessages\<close> return it as they
  return an error of the datastore, and write no status for it.
\<close>

theorem ChannelID_fails_with_plain_error:
  "(ChannelID g m \<in> {Inl (Err ''channels must have games and > 1 members''),
                      Inl (Err ''gameIDs must have int IDs'')}) =
     (g = None \<or> (\<exists>k. g = Some k \<and> intID k = 0) \<or> length m < 2) \<and>
   (\<exists>k. ChannelID g m = Inr k) =
     (\<not> (g = None \<or> (\<exists>k. g = Some k \<and> intID k = 0) \<or> length m < 2)) \<and>
   (user env = Some u \<and> DecodeKey env = Inr gameID \<and> MemberID env = Inr memberID \<and>
    GetMulti_err env = None \<and> Copy env = Inr (members, body) \<and>
    Nation (member env) \<in> set members \<and>
    set members \<subseteq> set (Variants env (Variant (game env))) \<and>
    ChannelID (Some gameID) (sort_Sort members) = Inl err \<longrightarrow>
      createMessage env st = (Inl (Return err), st) \<and>
      httpStatus (Return err) = None) \<and>
   (user env' = Some u' \<and> DecodeKey env' = Inr gameID' \<and> sinceOf env' = Inr since \<and>
    MemberID env' = Inr memberID' \<and> requesterNation env' = Inr nation \<and>
    nation \<in> set (FromString (channel_members env')) \<and>
    ChannelID (Some gameID') (FromString (channel_members env')) = Inl err' \<longrightarrow>
      listMessages env' st' = Inl (Return err') \<and>
      httpStatus (Return err') = None)"
proof (intro conjI impI)
  show "(ChannelID g m \<in> {Inl (Err ''channels must have games and > 1 members''),
                      Inl (Err ''gameIDs must have int IDs'')}) =
     (g = None \<or> (\<exists>k. g = Some k \<and> intID k = 0) \<or> length m < 2)"
    by (auto simp: ChannelID_def split: option.splits)
  show "(\<exists>k. ChannelID g m = Inr k) =
     (\<not> (g = None \<or> (\<exists>k. g = Some k \<and> intID k = 0) \<or> length m < 2))"
    by (auto simp: ChannelID_def split: option.splits)
next
  assume "user env = Some u \<and> DecodeKey env = Inr gameID \<and> MemberID env = Inr memberID \<and>
    GetMulti_err env = None \<and> Copy env = Inr (members, body) \<and>
    Nation (member env) \<in> set members \<and>
    set members \<subseteq> set (Variants env (Variant (game env))) \<and>
    ChannelID (Some gameID) (sort_Sort members) = Inl err"
  then show "createMessage env st = (Inl (Return err), st)"
    by (simp add: createMessage_def Includes_set set_sort_Sort unknownMember_set)
next
  show "httpStatus (Return err) = None"
    by simp
next
  assume a: "user env' = Some u' \<and> DecodeKey env' = Inr gameID' \<and> sinceOf env' = Inr since \<and>
    MemberID env' = Inr memberID' \<and> requesterNation env' = Inr nation \<and>
    nation \<in> set (FromString (channel_members env')) \<and>
    ChannelID (Some gameID') (FromString (channel_members env')) = Inl err'"
  then have p: "user env' = Some u'" "DecodeKey env' = Inr gameID'" "sinceOf env' = Inr since"
    "MemberID env' = Inr memberID'" "requesterNation env' = Inr nation"
    by simp_all
  from a show "listMessages env' st' = Inl (Return err')"
    by (simp add: listMessages_allowed [OF p])
next
  show "httpStatus (Return err') = None"
    by simp
qed

lemma FromString_E: "FromString ''ENGLAND'' = [''ENGLAND'']"
  by (simp add: FromString_def strings_Split.simps)

lemma ChannelID_single:
  "ChannelID (Some game7) [''ENGLAND''] =
     Inl (Err ''channels must have games and > 1 members'')"
  by (simp add: ChannelID_def)

theorem ChannelID_fails_with_plain_error_witness:
  "ChannelID (Some game7) [''ENGLAND''] =
     Inl (Err ''channels must have games and > 1 members'') \<and>
   createMessage (env0\<lparr>Copy := Inr ([''ENGLAND''], ''hi'')\<rparr>) store2 =
     (Inl (Return (Err ''channels must have games and > 1 members'')), store2) \<and>
   listMessages (env0\<lparr>channel_members := ''ENGLAND''\<rparr>) store2 =
     Inl (Return (Err ''channels must have games and > 1 members''))"
proof -
  let ?w = "env0\<lparr>Copy := Inr ([''ENGLAND''], ''hi'')\<rparr>"
  let ?r = "env0\<lparr>channel_members := ''ENGLAND''\<rparr>"
  let ?e = "Err ''channels must have games and > 1 members''"
  note t = ChannelID_fails_with_plain_error
    [where env = ?w and u = "''u1''" and gameID = game7
      and memberID = "Key ''Member'' ''u1'' 0 (Some game7)"
      and members = "[''ENGLAND'']" and body = "''hi''" and err = ?e and st = store2
      and env' = ?r and u' = "''u1''" and gameID' = game7 and since = None
      and memberID' = "Key ''Member'' ''u1'' 0 (Some game7)" and nation = "''ENGLAND''"
      and err' = ?e and st' = store2 and g = "Some game7" and m = "[''ENGLAND'']"]
  have s: "sort_Sort [''ENGLAND''] = [''ENGLAND'']"
    by (simp add: sort_Sort_def)
  have w: "user ?w = Some ''u1'' \<and> DecodeKey ?w = Inr game7 \<and>
    MemberID ?w = Inr (Key ''Member'' ''u1'' 0 (Some game7)) \<and>
    GetMulti_err ?w = None \<and> Copy ?w = Inr ([''ENGLAND''], ''hi'') \<and>
    Nation (member ?w) \<in> set [''ENGLAND''] \<and>
    set [''ENGLAND''] \<subseteq> set (Variants ?w (Variant (game ?w))) \<and>
    ChannelID (Some game7) (sort_Sort [''ENGLAND'']) = Inl ?e"
    by (simp add: env0_sel trio_roster s ChannelID_single)
  have r: "user ?r = Some ''u1'' \<and> DecodeKey ?r = Inr game7 \<and> sinceOf ?r = Inr None \<and>
    MemberID ?r = Inr (Key ''Member'' ''u1'' 0 (Some game7)) \<and>
    requesterNation ?r = Inr ''ENGLAND'' \<and>
    ''ENGLAND'' \<in> set (FromString (channel_members ?r)) \<and>
    ChannelID (Some game7) (FromString (channel_members ?r)) = Inl ?e"
    by (simp add: env0_sel sinceOf_def requesterNation_def FromString_E ChannelID_single)
  from t w have a: "createMessage ?w store2 = (Inl (Return ?e), store2)"
    by blast
  from t r have b: "listMessages ?r store2 = Inl (Return ?e)"
    by blast
  from ChannelID_single a b show ?thesis
    by (intro conjI)
qed

text \<open>
  C9, as the claim states it, fails: ENGLAND sends to the one member ENGLAND. The
  key derivation fails, and what the handler gives is the plain error, returned,
  not the status 400 that it writes for a destination member outside the roster.
\<close>

theorem ChannelID_failure_is_not_400:
  "length [''ENGLAND''] < 2 \<and>
   ChannelID (Some game7) [''ENGLAND''] =
     Inl (Err ''channels must have games and > 1 members'') \<and>
   fst (createMessage (env0\<lparr>Copy := Inr ([''ENGLAND''], ''hi'')\<rparr>) store2) =
     Inl (Return (Err ''channels must have games and > 1 members'')) \<and>
   httpStatus (Return (Err ''channels must have games and > 1 members'')) \<noteq> Some 400 \<and>
   fst (createMessage (env0\<lparr>Copy := Inr ([''ENGLAND'', ''MARS''], ''hi'')\<rparr>) store2) =
     Inl (HTTPError 400 ''unknown channel member'') \<and>
   httpStatus (HTTPError 400 ''unknown channel member'') = Some 400"
  by (simp add: createMessage_def ChannelID_def env0_def trioVariants_def sort_Sort_def)

section \<open>Listing the channels\<close>

lemma collect_filter: "collect merr rs = merr @ filter (\<lambda>r. r \<noteq> None) rs"
  by (induction rs arbitrary: merr) (auto split: option.splits)

lemma received_mset:
  assumes "mset (arrival env) = mset [0..<length sent]"
  shows "mset (received env sent) = mset sent"
proof -
  from assms have "set (arrival env) = set [0..<length sent]"
    by (rule mset_eq_setD)
  then have "filter (\<lambda>i. i < length sent) (arrival env) = arrival env"
    by (auto simp: filter_id_conv)
  then have "mset (received env sent) = image_mset (\<lambda>i. sent ! i) (mset (arrival env))"
    by (simp add: received_def)
  also have "\<dots> = mset (map (\<lambda>i. sent ! i) [0..<length sent])"
    by (simp add: assms)
  also have "\<dots> = mset sent"
    by (simp add: map_nth)
  finally show ?thesis .
qed

lemma sent_failures:
  "filter (\<lambda>r. r \<noteq> None) (map (\<lambda>r. case r of Inl err \<Rightarrow> Some err | Inr c \<Rightarrow> None) (map f cs)) =
     concat (map (\<lambda>c. case f c of Inl err \<Rightarrow> [Some err] | Inr c' \<Rightarrow> []) cs)"
  by (induction cs) (auto split: sum.splits)

lemma countAll_failures:
  assumes "mset (arrival env) = mset [0..<length cs]"
    and "\<exists>c\<in>set cs. isl (CountSince env st since c)"
  shows "\<exists>merr. countAll env st since cs = Inl (Return (MultiError merr)) \<and>
     mset merr = mset (concat (map
       (\<lambda>c. case CountSince env st since c of Inl err \<Rightarrow> [Some err] | Inr c' \<Rightarrow> []) cs))"
proof -
  let ?sent = "map (\<lambda>r. case r of Inl err \<Rightarrow> Some err | Inr c \<Rightarrow> None)
      (map (CountSince env st since) cs)"
  let ?merr = "collect [] (received env ?sent)"
  let ?fails = "concat (map
       (\<lambda>c. case CountSince env st since c of Inl err \<Rightarrow> [Some err] | Inr c' \<Rightarrow> []) cs)"
  from assms(1) have "mset (received env ?sent) = mset ?sent"
    by (intro received_mset) simp
  then have "mset ?merr = mset (filter (\<lambda>r. r \<noteq> None) ?sent)"
    by (simp add: collect_filter)
  then have m: "mset ?merr = mset ?fails"
    by (simp only: sent_failures)
  from assms(2) obtain c where "c \<in> set cs" "isl (CountSince env st since c)"
    by blast
  then have "?fails \<noteq> []"
    by (force simp: isl_def)
  with m have "?merr \<noteq> []"
    by auto
  then have "countAll env st since cs = Inl (Return (MultiError ?merr))"
    by (simp add: countAll_def Let_def)
  with m show ?thesis by blast
qed

text \<open>
  C3. \<open>listChannels\<close> with a cutoff, once the channels are looked up: every goroutine
  delivers its result once, in some order. If the count of one channel or more
  fails, the handler returns a \<open>MultiError\<close> and no channel list, and the
  \<open>MultiError\<close> holds the error of every channel whose count failed, once each.
\<close>

theorem listChannels_count_failures:
  assumes "user env = Some u" and "DecodeKey env = Inr gameID"
    and "MemberID env = Inr memberID" and "sinceOf env = Inr (Some since)"
    and "requesterNation env = Inr nation"
    and "lookupChannels env st gameID nation = Inr cs"
    and "mset (arrival env) = mset [0..<length cs]"
    and "\<exists>c\<in>set cs. isl (CountSince env st since c)"
  shows "\<exists>merr. listChannels env st = Inl (Return (MultiError merr)) \<and>
     mset merr = mset (concat (map
       (\<lambda>c. case CountSince env st since c of Inl err \<Rightarrow> [Some err] | Inr c' \<Rightarrow> []) cs))"
proof -
  from countAll_failures [OF assms(7,8)] obtain merr where
    c: "countAll env st since cs = Inl (Return (MultiError merr))" and
    m: "mset merr = mset (concat (map
       (\<lambda>c. case CountSince env st since c of Inl err \<Rightarrow> [Some err] | Inr c' \<Rightarrow> []) cs))"
    by blast
  from assms(1-6) c have "listChannels env st = Inl (Return (MultiError merr))"
    by (simp add: listChannels_def)
  with m show ?thesis
    by blast
qed




lemma Channels_Item_nil_GameID:
  "Channel.GameID c = None \<Longrightarrow>
     Channels_Item (c # cs) = Inl (Panic ''nil pointer dereference'')"
  by (simp add: Channel_Item_def Let_def)




text \<open>
  Under the key of the public channel the write path stores records with a game
  key. A record without one is what the defect of C2 leaves; listing it without a
  cutoff ends in the panic of \<open>Channel.Item\<close>.
\<close>

lemma listChannels_observer_nil_GameID:
  assumes "user env = Some u" and "DecodeKey env = Inr gameID"
    and "MemberID env = Inr memberID" and "sinceOf env = Inr None"
    and "requesterNation env = Inr []"
    and "ChannelID (Some gameID) (publicChannel env (Variant (game env))) = Inr channelID"
    and "Get_fault env = None" and "map_of (channels st) channelID = Some stored"
    and "Channel.GameID stored = None"
  shows "listChannels env st = Inl (Panic ''nil pointer dereference'')"
proof -
  from assms(6-8) have "lookupChannels env st gameID [] = Inr [stored]"
    by (simp add: lookupChannels_def datastore_Get_def)
  with assms show ?thesis
    by (simp add: listChannels_def Channel_Item_def Let_def)
qed

lemma failingCounts_sel:
  "user failingCounts = Some ''u1''"
  "DecodeKey failingCounts = Inr game7"
  "MemberID failingCounts = Inr (Key ''Member'' ''u1'' 0 (Some game7))"
  "GetMulti_err failingCounts = None"
  "Nation (member failingCounts) = ''ENGLAND''"
  "since_param failingCounts = ''0001-01-01T00:01:40Z''"
  "Parse failingCounts = Inr 100"
  "GetAll_fault failingCounts = None"
  "Count_fault failingCounts channelEF = Some (Err ''count: timeout'')"
  "Count_fault failingCounts channelEFG = Some (Err ''count: unavailable'')"
  "arrival failingCounts = [1, 0]"
  by (simp_all add: failingCounts_def env0_def channelEF_def channelEFG_def)

lemma failingCounts_lookup:
  "lookupChannels failingCounts store3 game7 ''ENGLAND'' = Inr [privateEF, publicEFG]"
  by (simp add: lookupChannels_def failingCounts_sel store3_def privateEF_def publicEFG_def)

lemma failingCounts_CountSince:
  "CountSince failingCounts store3 100 privateEF = Inl (Err ''count: timeout'')"
  "CountSince failingCounts store3 100 publicEFG = Inl (Err ''count: unavailable'')"
  by (simp_all add: CountSince_def privateEF_def publicEFG_def ChannelID_game7_EF
      ChannelID_game7_EFG failingCounts_sel)

lemma failingCounts_listChannels:
  "listChannels failingCounts store3 =
     Inl (Return (MultiError [Some (Err ''count: unavailable''), Some (Err ''count: timeout'')]))"
  by (simp add: listChannels_def failingCounts_sel sinceOf_def requesterNation_def
      failingCounts_lookup countAll_def failingCounts_CountSince received_def Let_def)

theorem listChannels_count_failures_witness:
  "lookupChannels failingCounts store3 game7 ''ENGLAND'' = Inr [privateEF, publicEFG] \<and>
   CountSince failingCounts store3 100 privateEF = Inl (Err ''count: timeout'') \<and>
   CountSince failingCounts store3 100 publicEFG = Inl (Err ''count: unavailable'') \<and>
   listChannels failingCounts store3 =
     Inl (Return (MultiError [Some (Err ''count: unavailable''), Some (Err ''count: timeout'')])) \<and>
   mset [Some (Err ''count: unavailable''), Some (Err ''count: timeout'')] =
     mset [Some (Err ''count: timeout''), Some (Err ''count: unavailable'')]"
proof -
  have p4: "sinceOf failingCounts = Inr (Some 100)"
    by (simp add: sinceOf_def failingCounts_sel)
  have p5: "requesterNation failingCounts = Inr ''ENGLAND''"
    by (simp add: requesterNation_def failingCounts_sel)
  have p7: "mset (arrival failingCounts) = mset [0..<length [privateEF, publicEFG]]"
    by (simp add: failingCounts_sel upt_rec)
  have p8: "\<exists>c\<in>set [privateEF, publicEFG]. isl (CountSince failingCounts store3 100 c)"
    by (simp add: failingCounts_CountSince)
  from listChannels_count_failures [OF failingCounts_sel(1-3) p4 p5 failingCounts_lookup p7 p8]
  obtain merr where "listChannels failingCounts store3 = Inl (Return (MultiError merr))"
    and "mset merr = mset [Some (Err ''count: timeout''), Some (Err ''count: unavailable'')]"
    by (auto simp: failingCounts_CountSince)
  with failingCounts_lookup failingCounts_CountSince failingCounts_listChannels
  show ?thesis by simp
qed

lemma observer_public_key:
  "ChannelID (Some game7) (publicChannel observer (Variant (game observer))) = Inr channelEFG"
  "ChannelID (Some game7)
     (publicChannel (observer\<lparr>since_param := ''0001-01-01T00:01:40Z'', Parse := Inr 100,
        arrival := [0]\<rparr>) (Variant (game observer))) = Inr channelEFG"
  by (simp_all add: publicChannel_def observer_sel trio_roster sort_EFG ChannelID_game7_EFG)



text \<open>
  The record without a game key is reached from the example store: GERMANY writes
  to the public channel while \<open>datastore.Get\<close> fails; the observer's listing then
  panics.
\<close>

lemma listChannels_observer_after_Get_error:
  "listChannels observer
     (snd (createMessage
        (env0\<lparr>member := \<lparr>Nation = ''GERMANY''\<rparr>,
           Copy := Inr ([''GERMANY'', ''FRANCE'', ''ENGLAND''], ''again''),
           Get_fault := Some (Err ''datastore: internal error''),
           Put_message := Inr 4, Now := 400\<rparr>) store3)) =
     Inl (Panic ''nil pointer dereference'')"
proof -
  let ?st = "snd (createMessage
        (env0\<lparr>member := \<lparr>Nation = ''GERMANY''\<rparr>,
           Copy := Inr ([''GERMANY'', ''FRANCE'', ''ENGLAND''], ''again''),
           Get_fault := Some (Err ''datastore: internal error''),
           Put_message := Inr 4, Now := 400\<rparr>) store3)"
  have n: "channelEF \<noteq> channelEFG" "channelEFG \<noteq> channelEF"
    by (simp_all add: channelEF_def channelEFG_def)
  have "map_of (channels ?st) channelEFG = Some (zeroChannel\<lparr>Channel.NMessages := 1\<rparr>)"
    by (simp add: createMessage_def createMessage_tx_def datastore_Get_def Let_def sort_EFG
        ChannelID_game7_EFG env0_def trioVariants_def store3_def n zeroChannel_def)
  moreover have "Channel.GameID (zeroChannel\<lparr>Channel.NMessages := 1\<rparr>) = None"
    by (simp add: zeroChannel_def)
  moreover have "sinceOf observer = Inr None"
    by (simp add: sinceOf_def observer_sel)
  ultimately show ?thesis
    using listChannels_observer_nil_GameID [OF observer_sel(1-3) _ observer_nation
        observer_public_key(1) observer_sel(7)]
    by blast
qed

end
